theory Spec2Isabelle
  imports Main "HOL-Library.Sublist"
begin

section \<open>JavaScript values and the platform functions the client calls\<close>

text \<open>
  The client is TypeScript; its builder methods take \<open>number\<close>, \<open>string\<close>, \<open>boolean\<close> and
  \<open>any\<close> arguments. Strings are byte strings holding well-formed UTF-8, so that
  \<open>encodeURIComponent\<close> works byte by byte (a lone surrogate, on which the platform
  function throws, has no UTF-8 form and is outside the model). A number is an
  integer-valued double within the safe range (\<open>Fin n\<close>, which also stands for \<open>-0\<close> when
  \<open>n = 0\<close>), \<open>NaN\<close> or an infinity; fractions are outside the model. Objects other than
  arrays and symbols are outside the model as well.
\<close>

datatype jsnum = Fin int | NaN | PosInf | NegInf

datatype jsval = Undefined | Null | Bool bool | Num jsnum | Str string | Arr "jsval list"

fun digits :: "nat \<Rightarrow> string" where
  "digits n =
     (if n < 10 then [''0123456789'' ! n]
      else digits (n div 10) @ [''0123456789'' ! (n mod 10)])"

declare digits.simps [simp del]

definition Number_toString :: "jsnum \<Rightarrow> string" where
  "Number_toString x =
     (case x of
        Fin n \<Rightarrow> (if n < 0 then ''-'' @ digits (nat (- n)) else digits (nat n))
      | NaN \<Rightarrow> ''NaN''
      | PosInf \<Rightarrow> ''Infinity''
      | NegInf \<Rightarrow> ''-Infinity'')"

text \<open>\<open>Array.prototype.join\<close> on an array of strings.\<close>

fun Array_join :: "string list \<Rightarrow> string \<Rightarrow> string" where
  "Array_join [] sep = []"
| "Array_join [x] sep = x"
| "Array_join (x # y # ys) sep = x @ sep @ Array_join (y # ys) sep"

text \<open>
  The abstract operation \<open>ToString\<close>. An array prints as its elements joined by commas,
  where \<open>undefined\<close> and \<open>null\<close> elements print as the empty string.
\<close>

fun ToString :: "jsval \<Rightarrow> string" where
  "ToString Undefined = ''undefined''"
| "ToString Null = ''null''"
| "ToString (Bool b) = (if b then ''true'' else ''false'')"
| "ToString (Num x) = Number_toString x"
| "ToString (Str s) = s"
| "ToString (Arr xs) =
     Array_join (map (\<lambda>v. if v = Undefined \<or> v = Null then [] else ToString v) xs) '',''"

text \<open>\<open>Array.prototype.join\<close> on an array of arbitrary values (\<open>values.join(',')\<close>).\<close>

definition join_values :: "jsval list \<Rightarrow> string \<Rightarrow> string" where
  "join_values vs sep =
     Array_join (map (\<lambda>v. if v = Undefined \<or> v = Null then [] else ToString v) vs) sep"

text \<open>Truthiness (\<open>ToBoolean\<close>) and strict equality with the number \<open>0\<close>.\<close>

fun ToBoolean :: "jsval \<Rightarrow> bool" where
  "ToBoolean Undefined = False"
| "ToBoolean Null = False"
| "ToBoolean (Bool b) = b"
| "ToBoolean (Num (Fin n)) = (n \<noteq> 0)"
| "ToBoolean (Num NaN) = False"
| "ToBoolean (Num PosInf) = True"
| "ToBoolean (Num NegInf) = True"
| "ToBoolean (Str s) = (s \<noteq> [])"
| "ToBoolean (Arr xs) = True"

definition is_zero :: "jsval \<Rightarrow> bool" where
  "is_zero v = (v = Num (Fin 0))"

subsection \<open>Percent-encoding\<close>

definition uriUnreserved :: "char \<Rightarrow> bool" where
  "uriUnreserved c =
     (c \<in> set ''ABCDEFGHIJKLMNOPQRSTUVWXYZabcdefghijklmnopqrstuvwxyz0123456789-_.!~*'()'')"

definition hexDigit :: "nat \<Rightarrow> char" where
  "hexDigit n = ''0123456789ABCDEF'' ! n"

definition percentEncode :: "char \<Rightarrow> string" where
  "percentEncode c = [CHR ''%'', hexDigit (of_char c div 16), hexDigit (of_char c mod 16)]"

text \<open>\<open>encodeURIComponent\<close> on the string form of its argument.\<close>

definition encodeURIComponent :: "string \<Rightarrow> string" where
  "encodeURIComponent s = concat (map (\<lambda>c. if uriUnreserved c then [c] else percentEncode c) s)"

subsection \<open>The \<open>querystring\<close> module\<close>

text \<open>
  \<open>stringify\<close> of Node's \<open>querystring\<close>, for the only shape the client passes: an object
  with one key whose value is a string, a number or a boolean. The module escapes both
  the key and the value, leaving the same characters alone as \<open>encodeURIComponent\<close>; a
  number that is not finite prints as the empty string.
\<close>

definition stringifyPrimitive :: "jsval \<Rightarrow> string" where
  "stringifyPrimitive v =
     (case v of
        Str s \<Rightarrow> s
      | Num (Fin n) \<Rightarrow> Number_toString (Fin n)
      | Bool b \<Rightarrow> (if b then ''true'' else ''false'')
      | _ \<Rightarrow> [])"

definition stringify :: "string \<Rightarrow> jsval \<Rightarrow> string" where
  "stringify k v = encodeURIComponent k @ ''='' @ encodeURIComponent (stringifyPrimitive v)"

text \<open>\<open>String.prototype.split\<close> with a one-character separator.\<close>

fun split :: "string \<Rightarrow> char \<Rightarrow> string list" where
  "split [] sep = [[]]"
| "split (c # cs) sep =
     (if c = sep then [] # split cs sep
      else (case split cs sep of [] \<Rightarrow> [[c]] | p # ps \<Rightarrow> (c # p) # ps))"

text \<open>Indexing an array: \<open>undefined\<close> out of range.\<close>

fun at_index :: "'a list \<Rightarrow> nat \<Rightarrow> 'a option" where
  "at_index [] i = None"
| "at_index (x # xs) 0 = Some x"
| "at_index (x # xs) (Suc i) = at_index xs i"

section \<open>The network and the console\<close>

text \<open>
  \<open>fetch\<close> is the only way the client reaches the network. A request is answered by a
  response or rejected with an error; the answer may depend on the requests made so
  far. The world records every request issued and every line printed.
\<close>

datatype error = Error (message: string)

record request =
  url :: string
  http_method :: string
  headers :: "(string \<times> string) list"
  payload :: "jsval option"

record Response =
  ok :: bool
  statusText :: string
  content :: string

type_synonym network = "request list \<Rightarrow> request \<Rightarrow> error + Response"

record world =
  console :: "string list"
  requests :: "request list"

definition fetch :: "network \<Rightarrow> request \<Rightarrow> world \<Rightarrow> (error + Response) \<times> world" where
  "fetch net r w = (net (requests w) r, w\<lparr>requests := requests w @ [r]\<rparr>)"

section \<open>The client\<close>

datatype reqType = GET | POST | PUT | DELETE | EXPORT

datatype rendererArg = Json | Xml

record PrestApiClientOptions =
  base_url :: string
  authHeader :: string

text \<open>
  The field \<open>client\<close> of \<open>PrestApiClient\<close> is \<open>undefined\<close> or an object of five closures
  over the authorization header; \<open>http_client\<close> holds that header once the closures exist.
\<close>

record PrestApiClient =
  http_client :: "string option"
  options :: PrestApiClientOptions

definition createClient :: "PrestApiClient \<Rightarrow> PrestApiClient" where
  "createClient c = c\<lparr>http_client := Some (authHeader (options c))\<rparr>"

definition new_PrestApiClient :: "PrestApiClientOptions \<Rightarrow> PrestApiClient" where
  "new_PrestApiClient opts = createClient \<lparr>http_client = None, options = opts\<rparr>"

type_synonym transport =
  "network \<Rightarrow> string \<Rightarrow> jsval \<Rightarrow> world \<Rightarrow> (error + Response) \<times> world"

text \<open>
  One closure of the client object: a single \<open>fetch\<close>, then an error naming the operation
  when the status is not a success. \<open>get\<close> and \<open>delete\<close> send no body.
\<close>

definition send :: "string \<Rightarrow> request \<Rightarrow> network \<Rightarrow> world \<Rightarrow> (error + Response) \<times> world" where
  "send failure r net w =
     (case fetch net r w of
        (Inl e, w') \<Rightarrow> (Inl e, w')
      | (Inr response, w') \<Rightarrow>
          (if \<not> ok response then (Inl (Error (failure @ statusText response)), w')
           else (Inr response, w')))"

definition client_get :: "string \<Rightarrow> transport" where
  "client_get auth net u b =
     send ''Failed to fetch data: ''
       \<lparr>url = u, http_method = ''GET'', headers = [(''Authorization'', auth)], payload = None\<rparr> net"

definition client_export :: "string \<Rightarrow> transport" where
  "client_export auth net u b =
     send ''Failed to export data: ''
       \<lparr>url = u, http_method = ''POST'',
        headers = [(''Content-Type'', ''application/json''), (''Accept'', ''text/csv''),
                   (''Authorization'', auth)],
        payload = Some b\<rparr> net"

definition client_post :: "string \<Rightarrow> transport" where
  "client_post auth net u b =
     send ''Failed to insert data: ''
       \<lparr>url = u, http_method = ''POST'',
        headers = [(''Content-Type'', ''application/json''), (''Authorization'', auth)],
        payload = Some b\<rparr> net"

definition client_put :: "string \<Rightarrow> transport" where
  "client_put auth net u b =
     send ''Failed to update data: ''
       \<lparr>url = u, http_method = ''PUT'',
        headers = [(''Content-Type'', ''application/json''), (''Authorization'', auth)],
        payload = Some b\<rparr> net"

definition client_delete :: "string \<Rightarrow> transport" where
  "client_delete auth net u b =
     send ''Failed to delete data: ''
       \<lparr>url = u, http_method = ''DELETE'', headers = [(''Authorization'', auth)], payload = None\<rparr> net"

definition getHttpClientMethod :: "PrestApiClient \<Rightarrow> reqType \<Rightarrow> error + transport" where
  "getHttpClientMethod c m =
     (case http_client c of
        None \<Rightarrow> Inl (Error ''Client not initialized'')
      | Some auth \<Rightarrow>
          (case m of
             GET \<Rightarrow> Inr (client_get auth)
           | POST \<Rightarrow> Inr (client_post auth)
           | PUT \<Rightarrow> Inr (client_put auth)
           | DELETE \<Rightarrow> Inr (client_delete auth)
           | EXPORT \<Rightarrow> Inr (client_export auth)))"

section \<open>ChainedQuery\<close>

record ChainedQuery =
  client :: PrestApiClient
  baseUrl :: string
  reqType :: reqType
  body :: jsval
  rendererArg :: rendererArg
  sqlFunctions :: "string list"
  chainedOperations :: "string list"

definition new_ChainedQuery :: "PrestApiClient \<Rightarrow> string \<Rightarrow> reqType \<Rightarrow> jsval \<Rightarrow> ChainedQuery" where
  "new_ChainedQuery c u t b =
     \<lparr>client = c, baseUrl = u, reqType = t, body = b, rendererArg = Json,
      sqlFunctions = [], chainedOperations = []\<rparr>"

subsection \<open>Builder methods\<close>

text \<open>
  Each method mutates the query and returns \<open>this\<close>: the model returns the updated query.
  \<open>push_op\<close> is \<open>this.chainedOperations.push\<close>, \<open>push_fn\<close> is \<open>this.sqlFunctions.push\<close>.
\<close>

definition push_op :: "string \<Rightarrow> ChainedQuery \<Rightarrow> ChainedQuery" where
  "push_op s q = q\<lparr>chainedOperations := chainedOperations q @ [s]\<rparr>"

definition push_fn :: "string \<Rightarrow> ChainedQuery \<Rightarrow> ChainedQuery" where
  "push_fn s q = q\<lparr>sqlFunctions := sqlFunctions q @ [s]\<rparr>"

definition page :: "jsnum \<Rightarrow> ChainedQuery \<Rightarrow> ChainedQuery" where
  "page pageNumber q = push_op (stringify ''_page'' (Num pageNumber)) q"

definition pageSize :: "jsnum \<Rightarrow> ChainedQuery \<Rightarrow> ChainedQuery" where
  "pageSize n q = push_op (stringify ''_page_size'' (Num n)) q"

definition select :: "string \<Rightarrow> ChainedQuery \<Rightarrow> ChainedQuery" where
  "select fs q = push_op (stringify ''_select'' (Str fs)) q"

text \<open>\<open>count(field?)\<close>: an absent or empty field counts \<open>*\<close>.\<close>

definition count :: "string option \<Rightarrow> ChainedQuery \<Rightarrow> ChainedQuery" where
  "count field q =
     (let fieldValue = (case field of None \<Rightarrow> ''*'' | Some f \<Rightarrow> (if f \<noteq> [] then f else ''*''))
      in push_op (stringify ''_count'' (Str fieldValue)) q)"

text \<open>\<open>countFirst\<close> and \<open>distinct\<close> default their argument to \<open>true\<close> when it is absent.\<close>

definition countFirst :: "bool option \<Rightarrow> ChainedQuery \<Rightarrow> ChainedQuery" where
  "countFirst arg q =
     push_op (stringify ''_count_first'' (Bool (case arg of None \<Rightarrow> True | Some b \<Rightarrow> b))) q"

definition renderer :: "rendererArg \<Rightarrow> ChainedQuery \<Rightarrow> ChainedQuery" where
  "renderer r q =
     (push_op (stringify ''_renderer'' (Str (case r of Json \<Rightarrow> ''json'' | Xml \<Rightarrow> ''xml''))) q)
       \<lparr>rendererArg := r\<rparr>"

definition distinct_q :: "bool option \<Rightarrow> ChainedQuery \<Rightarrow> ChainedQuery" where
  "distinct_q arg q =
     push_op (stringify ''_distinct'' (Bool (case arg of None \<Rightarrow> True | Some b \<Rightarrow> b))) q"

definition order :: "string list \<Rightarrow> ChainedQuery \<Rightarrow> ChainedQuery" where
  "order fs q =
     (let orderFields = map (\<lambda>field. if take 1 field = ''-'' then field else field) fs
      in push_op (stringify ''_order'' (Str (Array_join orderFields '',''))) q)"

definition groupBy :: "string list \<Rightarrow> ChainedQuery \<Rightarrow> ChainedQuery" where
  "groupBy fs q = push_op (stringify ''_groupby'' (Str (Array_join fs '',''))) q"

definition eq :: "string \<Rightarrow> jsval \<Rightarrow> ChainedQuery \<Rightarrow> ChainedQuery" where
  "eq field v q = push_op (field @ ''='' @ encodeURIComponent (ToString v)) q"

definition gt :: "string \<Rightarrow> jsval \<Rightarrow> ChainedQuery \<Rightarrow> ChainedQuery" where
  "gt field v q = push_op (field @ ''=$gt.'' @ encodeURIComponent (ToString v)) q"

definition gte :: "string \<Rightarrow> jsval \<Rightarrow> ChainedQuery \<Rightarrow> ChainedQuery" where
  "gte field v q = push_op (field @ ''=$gte.'' @ encodeURIComponent (ToString v)) q"

definition lt :: "string \<Rightarrow> jsval \<Rightarrow> ChainedQuery \<Rightarrow> ChainedQuery" where
  "lt field v q = push_op (field @ ''=$lt.'' @ encodeURIComponent (ToString v)) q"

definition lte :: "string \<Rightarrow> jsval \<Rightarrow> ChainedQuery \<Rightarrow> ChainedQuery" where
  "lte field v q = push_op (field @ ''=$lte.'' @ encodeURIComponent (ToString v)) q"

definition ne :: "string \<Rightarrow> jsval \<Rightarrow> ChainedQuery \<Rightarrow> ChainedQuery" where
  "ne field v q = push_op (field @ ''=$ne.'' @ encodeURIComponent (ToString v)) q"

definition in_q :: "string \<Rightarrow> jsval list \<Rightarrow> ChainedQuery \<Rightarrow> ChainedQuery" where
  "in_q field vs q = push_op (field @ ''=$in.'' @ join_values vs '','') q"

definition notIn :: "string \<Rightarrow> jsval list \<Rightarrow> ChainedQuery \<Rightarrow> ChainedQuery" where
  "notIn field vs q = push_op (field @ ''=$nin.'' @ join_values vs '','') q"

definition null_q :: "string \<Rightarrow> ChainedQuery \<Rightarrow> ChainedQuery" where
  "null_q field q = push_op (field @ ''=$null'') q"

definition notNull :: "string \<Rightarrow> ChainedQuery \<Rightarrow> ChainedQuery" where
  "notNull field q = push_op (field @ ''=$notnull'') q"

definition like :: "string \<Rightarrow> string \<Rightarrow> ChainedQuery \<Rightarrow> ChainedQuery" where
  "like field v q = push_op (field @ ''=$like.'' @ encodeURIComponent v) q"

definition ilike :: "string \<Rightarrow> string \<Rightarrow> ChainedQuery \<Rightarrow> ChainedQuery" where
  "ilike field v q = push_op (field @ ''=$ilike.'' @ encodeURIComponent v) q"

definition notLike :: "string \<Rightarrow> string \<Rightarrow> ChainedQuery \<Rightarrow> ChainedQuery" where
  "notLike field v q = push_op (field @ ''=$notlike.'' @ encodeURIComponent v) q"

definition sum_q :: "string \<Rightarrow> ChainedQuery \<Rightarrow> ChainedQuery" where
  "sum_q field q = push_fn (''sum:'' @ field) q"

definition avg :: "string \<Rightarrow> ChainedQuery \<Rightarrow> ChainedQuery" where
  "avg field q = push_fn (''avg:'' @ field) q"

definition max_q :: "string \<Rightarrow> ChainedQuery \<Rightarrow> ChainedQuery" where
  "max_q field q = push_fn (''max:'' @ field) q"

definition min_q :: "string \<Rightarrow> ChainedQuery \<Rightarrow> ChainedQuery" where
  "min_q field q = push_fn (''min:'' @ field) q"

definition stdDev :: "string \<Rightarrow> ChainedQuery \<Rightarrow> ChainedQuery" where
  "stdDev field q = push_fn (''stddev:'' @ field) q"

definition variance :: "string \<Rightarrow> ChainedQuery \<Rightarrow> ChainedQuery" where
  "variance field q = push_fn (''variance:'' @ field) q"

definition having :: "string \<Rightarrow> string \<Rightarrow> string \<Rightarrow> jsval \<Rightarrow> ChainedQuery \<Rightarrow> ChainedQuery" where
  "having groupFunc field condition v q =
     (let havingClause =
        ''having:'' @ groupFunc @ '':'' @ field @ '':'' @ condition @ '':'' @
        encodeURIComponent (ToString v)
      in push_op havingClause q)"

text \<open>\<open>filterRange(field, start?, end?)\<close>: an absent bound is \<open>undefined\<close>.\<close>

definition filterRange :: "string \<Rightarrow> jsval \<Rightarrow> jsval \<Rightarrow> ChainedQuery \<Rightarrow> ChainedQuery" where
  "filterRange field start endv q =
     (let q1 = (if is_zero start \<or> ToBoolean start
                then push_op (field @ ''=$gte.'' @ encodeURIComponent (ToString start)) q
                else q)
      in (if is_zero endv \<or> ToBoolean endv
          then push_op (field @ ''=$lte.'' @ encodeURIComponent (ToString endv)) q1
          else q1))"

datatype joinType = Inner | Left | Right | Outer

definition joinType_name :: "joinType \<Rightarrow> string" where
  "joinType_name t =
     (case t of Inner \<Rightarrow> ''inner'' | Left \<Rightarrow> ''left'' | Right \<Rightarrow> ''right'' | Outer \<Rightarrow> ''outer'')"

definition join ::
  "joinType \<Rightarrow> string \<Rightarrow> string \<Rightarrow> string \<Rightarrow> string \<Rightarrow> ChainedQuery \<Rightarrow> ChainedQuery" where
  "join t jointable localField operator foreignField q =
     (let joinClause =
        ''_join='' @ joinType_name t @ '':'' @ jointable @ '':'' @ localField @ '':'' @
        operator @ '':'' @ foreignField
      in push_op joinClause q)"

definition jsonbFilter :: "string \<Rightarrow> string \<Rightarrow> jsval \<Rightarrow> ChainedQuery \<Rightarrow> ChainedQuery" where
  "jsonbFilter field jsonField v q =
     (let filterClause =
        field @ ''->>'' @ jsonField @ '':jsonb='' @ encodeURIComponent (ToString v)
      in push_op filterClause q)"

text \<open>\<open>textSearch(field, query, language?)\<close>: an absent or empty language adds nothing.\<close>

definition textSearch :: "string \<Rightarrow> string \<Rightarrow> string option \<Rightarrow> ChainedQuery \<Rightarrow> ChainedQuery" where
  "textSearch field query language q =
     (let tsQuery =
        field @ (case language of None \<Rightarrow> [] | Some l \<Rightarrow> (if l \<noteq> [] then ''$'' @ l else [])) @
        '':tsquery='' @ encodeURIComponent query
      in push_op tsQuery q)"

subsection \<open>execute\<close>

text \<open>
  The loop of \<open>execute\<close> over the clauses from index \<open>i\<close> on, appending \<open>&\<close> and the clause.
\<close>

function append_rest :: "string list \<Rightarrow> nat \<Rightarrow> string \<Rightarrow> string" where
  "append_rest ops i u =
     (if i < length ops then append_rest ops (i + 1) (u @ ''&'' @ ops ! i) else u)"
  by pat_completeness auto
termination
  by (relation "measure (\<lambda>(ops, i, u). length ops - i)") auto

declare append_rest.simps [simp del]

text \<open>The URL \<open>execute\<close> builds before it touches the network.\<close>

definition chainedUrl :: "ChainedQuery \<Rightarrow> string" where
  "chainedUrl q =
     (let u0 = baseUrl q;
          u1 = (if length (chainedOperations q) > 0
                then append_rest (chainedOperations q) 1 (u0 @ ''?'' @ hd (chainedOperations q))
                else u0)
      in (if length (sqlFunctions q) > 0
          then u1 @ ''&_select='' @ Array_join (sqlFunctions q) '',''
          else u1))"

text \<open>
  What \<open>execute\<close> resolves to: the promise of \<open>response.blob()\<close>, \<open>response.json()\<close> or
  \<open>response.text()\<close>, kept symbolic.
\<close>

datatype decoded = Blob Response | JsonData Response | Text Response

definition execute :: "network \<Rightarrow> ChainedQuery \<Rightarrow> world \<Rightarrow> (error + decoded) \<times> world" where
  "execute net q w =
     (let u = chainedUrl q;
          w1 = w\<lparr>console := console w @ [u]\<rparr>
      in (case getHttpClientMethod (client q) (reqType q) of
            Inl e \<Rightarrow> (Inl (Error (''Failed to make API request: '' @ message e)), w1)
          | Inr httpClientMethod \<Rightarrow>
              (case httpClientMethod net u (body q) w1 of
                 (Inl e, w2) \<Rightarrow> (Inl (Error (''Failed to make API request: '' @ message e)), w2)
               | (Inr response, w2) \<Rightarrow>
                   (if reqType q = EXPORT then (Inr (Blob response), w2)
                    else if rendererArg q = Json then (Inr (JsonData response), w2)
                    else (Inr (Text response), w2)))))"

section \<open>Accessors\<close>

text \<open>
  \<open>table\<close> returns an object of seven closures over the client, the schema and the table;
  the model returns the schema and table and gives each closure as a function of them.
\<close>

record TableReference =
  schemaName :: string
  tableName :: string

definition table :: "PrestApiClient \<Rightarrow> string option \<Rightarrow> error + TableReference" where
  "table c name =
     (if http_client c = None then Inl (Error ''Client not initialized'')
      else (case name of
              None \<Rightarrow> Inl (Error ''table name is required'')
            | Some t \<Rightarrow>
                (if t = [] then Inl (Error ''table name is required'')
                 else if CHR ''.'' \<in> set t
                 then (let parts = split t (CHR ''.'')
                       in Inr \<lparr>schemaName =
                                 (case at_index parts 0 of
                                    Some s \<Rightarrow> (if s \<noteq> [] then s else ''public'')
                                  | None \<Rightarrow> ''public''),
                               tableName =
                                 (case at_index parts 1 of
                                    Some s \<Rightarrow> s
                                  | None \<Rightarrow> ''undefined'')\<rparr>)
                 else Inr \<lparr>schemaName = ''public'', tableName = t\<rparr>)))"

definition table_path :: "PrestApiClient \<Rightarrow> string \<Rightarrow> TableReference \<Rightarrow> string" where
  "table_path c seg r =
     base_url (options c) @ seg @ ''/'' @ schemaName r @ ''/'' @ tableName r"

definition table_list :: "PrestApiClient \<Rightarrow> TableReference \<Rightarrow> ChainedQuery" where
  "table_list c r = new_ChainedQuery c (table_path c [] r) GET Null"

definition table_show :: "PrestApiClient \<Rightarrow> TableReference \<Rightarrow> ChainedQuery" where
  "table_show c r = new_ChainedQuery c (table_path c ''/show'' r) GET Null"

definition table_export :: "PrestApiClient \<Rightarrow> TableReference \<Rightarrow> jsval \<Rightarrow> ChainedQuery" where
  "table_export c r d = new_ChainedQuery c (table_path c ''/export'' r) EXPORT d"

definition table_insert :: "PrestApiClient \<Rightarrow> TableReference \<Rightarrow> jsval \<Rightarrow> ChainedQuery" where
  "table_insert c r d = new_ChainedQuery c (table_path c [] r) POST d"

definition table_batchInsert :: "PrestApiClient \<Rightarrow> TableReference \<Rightarrow> jsval \<Rightarrow> ChainedQuery" where
  "table_batchInsert c r d = new_ChainedQuery c (table_path c ''/batch'' r) POST d"

definition table_update :: "PrestApiClient \<Rightarrow> TableReference \<Rightarrow> jsval \<Rightarrow> ChainedQuery" where
  "table_update c r d = new_ChainedQuery c (table_path c [] r) PUT d"

definition table_delete :: "PrestApiClient \<Rightarrow> TableReference \<Rightarrow> ChainedQuery" where
  "table_delete c r = new_ChainedQuery c (table_path c [] r) DELETE Null"

section \<open>Sequences of builder calls\<close>

text \<open>
  A fluent chain \<open>q.m1(..).m2(..)...\<close> is the list of its method calls, applied to the
  query from left to right.
\<close>

datatype call =
    Call_page jsnum
  | Call_pageSize jsnum
  | Call_select string
  | Call_count "string option"
  | Call_countFirst "bool option"
  | Call_renderer rendererArg
  | Call_distinct "bool option"
  | Call_order "string list"
  | Call_groupBy "string list"
  | Call_eq string jsval
  | Call_gt string jsval
  | Call_gte string jsval
  | Call_lt string jsval
  | Call_lte string jsval
  | Call_ne string jsval
  | Call_in string "jsval list"
  | Call_notIn string "jsval list"
  | Call_null string
  | Call_notNull string
  | Call_like string string
  | Call_ilike string string
  | Call_notLike string string
  | Call_sum string
  | Call_avg string
  | Call_max string
  | Call_min string
  | Call_stdDev string
  | Call_variance string
  | Call_having string string string jsval
  | Call_filterRange string jsval jsval
  | Call_join joinType string string string string
  | Call_jsonbFilter string string jsval
  | Call_textSearch string string "string option"

fun invoke :: "call \<Rightarrow> ChainedQuery \<Rightarrow> ChainedQuery" where
  "invoke (Call_page n) q = page n q"
| "invoke (Call_pageSize n) q = pageSize n q"
| "invoke (Call_select fs) q = select fs q"
| "invoke (Call_count f) q = count f q"
| "invoke (Call_countFirst b) q = countFirst b q"
| "invoke (Call_renderer r) q = renderer r q"
| "invoke (Call_distinct b) q = distinct_q b q"
| "invoke (Call_order fs) q = order fs q"
| "invoke (Call_groupBy fs) q = groupBy fs q"
| "invoke (Call_eq f v) q = eq f v q"
| "invoke (Call_gt f v) q = gt f v q"
| "invoke (Call_gte f v) q = gte f v q"
| "invoke (Call_lt f v) q = lt f v q"
| "invoke (Call_lte f v) q = lte f v q"
| "invoke (Call_ne f v) q = ne f v q"
| "invoke (Call_in f vs) q = in_q f vs q"
| "invoke (Call_notIn f vs) q = notIn f vs q"
| "invoke (Call_null f) q = null_q f q"
| "invoke (Call_notNull f) q = notNull f q"
| "invoke (Call_like f v) q = like f v q"
| "invoke (Call_ilike f v) q = ilike f v q"
| "invoke (Call_notLike f v) q = notLike f v q"
| "invoke (Call_sum f) q = sum_q f q"
| "invoke (Call_avg f) q = avg f q"
| "invoke (Call_max f) q = max_q f q"
| "invoke (Call_min f) q = min_q f q"
| "invoke (Call_stdDev f) q = stdDev f q"
| "invoke (Call_variance f) q = variance f q"
| "invoke (Call_having g f c v) q = having g f c v q"
| "invoke (Call_filterRange f a b) q = filterRange f a b q"
| "invoke (Call_join t a b c d) q = join t a b c d q"
| "invoke (Call_jsonbFilter f p v) q = jsonbFilter f p v q"
| "invoke (Call_textSearch f s l) q = textSearch f s l q"

fun chain :: "call list \<Rightarrow> ChainedQuery \<Rightarrow> ChainedQuery" where
  "chain [] q = q"
| "chain (c # cs) q = chain cs (invoke c q)"

section \<open>Vocabulary of the specification\<close>

text \<open>
  The specification describes the URL as the base URL, then \<open>?\<close> and the first clause,
  then \<open>&\<close> and each further clause, then one trailing selection directive when there
  are aggregate tokens. These are its words; \<open>chainedUrl\<close> above is the code.
\<close>

fun and_clauses :: "string list \<Rightarrow> string" where
  "and_clauses [] = []"
| "and_clauses (c # cs) = ''&'' @ c @ and_clauses cs"

definition query_string :: "string list \<Rightarrow> string" where
  "query_string cls = (case cls of [] \<Rightarrow> [] | c # cs \<Rightarrow> ''?'' @ c @ and_clauses cs)"

definition select_suffix :: "string list \<Rightarrow> string" where
  "select_suffix fns = (if fns = [] then [] else ''&_select='' @ Array_join fns '','')"

text \<open>The closure \<open>getHttpClientMethod\<close> picks for a verb, on an initialised client.\<close>

definition transport_of :: "string \<Rightarrow> reqType \<Rightarrow> transport" where
  "transport_of auth m =
     (case m of
        GET \<Rightarrow> client_get auth
      | POST \<Rightarrow> client_post auth
      | PUT \<Rightarrow> client_put auth
      | DELETE \<Rightarrow> client_delete auth
      | EXPORT \<Rightarrow> client_export auth)"

text \<open>
  What one builder call contributes, read off the code by running the call on a query
  with empty accumulators: its clause fragments and its aggregate tokens.
\<close>

definition blank :: ChainedQuery where
  "blank =
     new_ChainedQuery \<lparr>http_client = None, options = \<lparr>base_url = [], authHeader = []\<rparr>\<rparr>
       [] GET Null"

definition fragments :: "call \<Rightarrow> string list" where
  "fragments c = chainedOperations (invoke c blank)"

definition tokens :: "call \<Rightarrow> string list" where
  "tokens c = sqlFunctions (invoke c blank)"

text \<open>
  The five closures side by side: the request each one sends and the text it puts in front
  of the status when the status is not a success.
\<close>

definition request_of :: "string \<Rightarrow> reqType \<Rightarrow> string \<Rightarrow> jsval \<Rightarrow> request" where
  "request_of auth m u b =
     (case m of
        GET \<Rightarrow>
          \<lparr>url = u, http_method = ''GET'', headers = [(''Authorization'', auth)], payload = None\<rparr>
      | POST \<Rightarrow>
          \<lparr>url = u, http_method = ''POST'',
           headers = [(''Content-Type'', ''application/json''), (''Authorization'', auth)],
           payload = Some b\<rparr>
      | PUT \<Rightarrow>
          \<lparr>url = u, http_method = ''PUT'',
           headers = [(''Content-Type'', ''application/json''), (''Authorization'', auth)],
           payload = Some b\<rparr>
      | DELETE \<Rightarrow>
          \<lparr>url = u, http_method = ''DELETE'', headers = [(''Authorization'', auth)],
           payload = None\<rparr>
      | EXPORT \<Rightarrow>
          \<lparr>url = u, http_method = ''POST'',
           headers = [(''Content-Type'', ''application/json''), (''Accept'', ''text/csv''),
                      (''Authorization'', auth)],
           payload = Some b\<rparr>)"

definition failure_text :: "reqType \<Rightarrow> string" where
  "failure_text m =
     (case m of
        GET \<Rightarrow> ''Failed to fetch data: ''
      | POST \<Rightarrow> ''Failed to insert data: ''
      | PUT \<Rightarrow> ''Failed to update data: ''
      | DELETE \<Rightarrow> ''Failed to delete data: ''
      | EXPORT \<Rightarrow> ''Failed to export data: '')"

section \<open>Concrete inputs for the examples\<close>

definition demo_client :: PrestApiClient where
  "demo_client = new_PrestApiClient \<lparr>base_url = ''http://h'', authHeader = ''k''\<rparr>"

definition demo_query :: "reqType \<Rightarrow> string list \<Rightarrow> string list \<Rightarrow> ChainedQuery" where
  "demo_query t cls fns =
     (new_ChainedQuery demo_client ''http://h/public/t'' t Null)
       \<lparr>sqlFunctions := fns, chainedOperations := cls\<rparr>"

definition net_ok :: network where
  "net_ok h r = Inr \<lparr>ok = True, statusText = ''OK'', content = ''[]''\<rparr>"

definition net_not_found :: network where
  "net_not_found h r = Inr \<lparr>ok = False, statusText = ''Not Found'', content = []\<rparr>"

definition net_down :: network where
  "net_down h r = Inl (Error ''fetch failed'')"

definition world0 :: world where
  "world0 = \<lparr>console = [], requests = []\<rparr>"

section \<open>The URL built by execute\<close>

lemma append_rest_drop: "append_rest ops i u = u @ and_clauses (drop i ops)"
proof (induction ops i u rule: append_rest.induct)
  case (1 ops i u)
  show ?case
  proof (cases "i < length ops")
    case True
    then have "drop i ops = ops ! i # drop (Suc i) ops"
      by (simp add: Cons_nth_drop_Suc)
    with True 1 show ?thesis
      by (subst append_rest.simps) simp
  next
    case False
    then show ?thesis
      by (subst append_rest.simps) simp
  qed
qed

lemma chainedUrl_eq:
  "chainedUrl q = baseUrl q @ query_string (chainedOperations q) @ select_suffix (sqlFunctions q)"
proof (cases "chainedOperations q")
  case Nil
  then show ?thesis
    by (simp add: chainedUrl_def query_string_def select_suffix_def)
next
  case (Cons c cs)
  then show ?thesis
    by (simp add: chainedUrl_def query_string_def select_suffix_def append_rest_drop)
qed

lemma send_requests: "requests (snd (send f r net w)) = requests w @ [r]"
  by (simp add: send_def fetch_def split: sum.splits)

lemma send_console: "console (snd (send f r net w)) = console w"
  by (simp add: send_def fetch_def split: sum.splits)

lemma getHttpClientMethod_Some:
  "http_client c = Some auth \<Longrightarrow> getHttpClientMethod c m = Inr (transport_of auth m)"
  by (simp add: getHttpClientMethod_def transport_of_def split: reqType.splits)

lemma transport_urls:
  "map url (requests (snd (transport_of auth m net u b w))) = map url (requests w) @ [u]"
  by (cases m)
     (simp_all add: transport_of_def client_get_def client_post_def client_put_def
        client_delete_def client_export_def send_requests)

lemma transport_console: "console (snd (transport_of auth m net u b w)) = console w"
  by (cases m)
     (simp_all add: transport_of_def client_get_def client_post_def client_put_def
        client_delete_def client_export_def send_console)

lemma execute_world:
  assumes "http_client (client q) = Some auth"
  shows "snd (execute net q w) =
         snd (transport_of auth (reqType q) net (chainedUrl q) (body q)
                (w\<lparr>console := console w @ [chainedUrl q]\<rparr>))"
  using assms
  by (simp add: execute_def Let_def getHttpClientMethod_Some split: prod.splits sum.splits)

lemma execute_urls:
  assumes "http_client (client q) = Some auth"
  shows "map url (requests (snd (execute net q w))) = map url (requests w) @ [chainedUrl q]"
  by (simp add: execute_world [OF assms] transport_urls)

lemma client_ready: "http_client (new_PrestApiClient opts) = Some (authHeader opts)"
  by (simp add: new_PrestApiClient_def createClient_def)

lemma client_options: "options (new_PrestApiClient opts) = opts"
  by (simp add: new_PrestApiClient_def createClient_def)

lemma digits_small: "n < 10 \<Longrightarrow> digits n = [''0123456789'' ! n]"
  by (subst digits.simps) simp

lemma table_products:
  "table (new_PrestApiClient opts) (Some ''products'') =
     Inr \<lparr>schemaName = ''public'', tableName = ''products''\<rparr>"
  by (simp add: table_def client_ready)

lemma page_1: "stringify ''_page'' (Num (Fin 1)) = ''_page=1''"
  by (simp add: stringify_def stringifyPrimitive_def Number_toString_def digits_small
      encodeURIComponent_def uriUnreserved_def)

lemma page_size_10: "stringify ''_page_size'' (Num (Fin 10)) = ''_page_size=10''"
  by (simp add: stringify_def stringifyPrimitive_def Number_toString_def digits.simps
      encodeURIComponent_def uriUnreserved_def)

text \<open>
  C1. Whenever the clause list is not empty, \<open>execute\<close> builds the URL from the base URL,
  \<open>?\<close> and the first clause, then \<open>&\<close> and each remaining clause in order (followed by the
  selection directive when there are aggregate tokens), and that is the URL it requests.
  In particular \<open>table("products").list().page(1).pageSize(10)\<close> requests the client's
  base URL followed by \<open>/public/products?_page=1&_page_size=10\<close>.
\<close>

theorem execute_url_nonempty:
  "(chainedOperations q = c # cs \<longrightarrow>
      chainedUrl q = baseUrl q @ ''?'' @ c @ and_clauses cs @ select_suffix (sqlFunctions q))
   \<and> (chainedOperations q = c # cs \<and> http_client (client q) = Some auth \<longrightarrow>
      map url (requests (snd (execute net q w))) = map url (requests w) @ [chainedUrl q])
   \<and> (case table (new_PrestApiClient opts) (Some ''products'') of
         Inl e \<Rightarrow> False
       | Inr r \<Rightarrow>
           chainedUrl (pageSize (Fin 10) (page (Fin 1) (table_list (new_PrestApiClient opts) r))) =
             base_url opts @ ''/public/products?_page=1&_page_size=10''
           \<and> map url (requests (snd (execute net
                 (pageSize (Fin 10) (page (Fin 1) (table_list (new_PrestApiClient opts) r))) w))) =
             map url (requests w) @ [base_url opts @ ''/public/products?_page=1&_page_size=10''])"
proof (intro conjI impI)
  assume "chainedOperations q = c # cs"
  then show "chainedUrl q = baseUrl q @ ''?'' @ c @ and_clauses cs @ select_suffix (sqlFunctions q)"
    by (simp add: chainedUrl_eq query_string_def)
next
  assume "chainedOperations q = c # cs \<and> http_client (client q) = Some auth"
  then show "map url (requests (snd (execute net q w))) = map url (requests w) @ [chainedUrl q]"
    by (simp add: execute_urls)
next
  let ?c = "new_PrestApiClient opts"
  let ?q = "pageSize (Fin 10) (page (Fin 1)
              (table_list ?c \<lparr>schemaName = ''public'', tableName = ''products''\<rparr>))"
  have u: "chainedUrl ?q = base_url opts @ ''/public/products?_page=1&_page_size=10''"
    by (simp add: chainedUrl_eq query_string_def select_suffix_def pageSize_def page_def
        push_op_def table_list_def table_path_def new_ChainedQuery_def client_options
        page_1 page_size_10)
  have "client ?q = ?c"
    by (simp add: pageSize_def page_def push_op_def table_list_def new_ChainedQuery_def)
  then have "http_client (client ?q) = Some (authHeader opts)"
    by (simp add: client_ready)
  from execute_urls [OF this] u
  have "map url (requests (snd (execute net ?q w))) =
          map url (requests w) @ [base_url opts @ ''/public/products?_page=1&_page_size=10'']"
    by simp
  with u show "case table ?c (Some ''products'') of
         Inl e \<Rightarrow> False
       | Inr r \<Rightarrow>
           chainedUrl (pageSize (Fin 10) (page (Fin 1) (table_list ?c r))) =
             base_url opts @ ''/public/products?_page=1&_page_size=10''
           \<and> map url (requests (snd (execute net
                 (pageSize (Fin 10) (page (Fin 1) (table_list ?c r))) w))) =
             map url (requests w) @ [base_url opts @ ''/public/products?_page=1&_page_size=10'']"
    by (simp add: table_products)
qed

lemma demo_client_ready: "http_client demo_client = Some ''k''"
  by (simp add: demo_client_def client_ready)

lemma demo_query_simps:
  "client (demo_query t cls fns) = demo_client"
  "baseUrl (demo_query t cls fns) = ''http://h/public/t''"
  "reqType (demo_query t cls fns) = t"
  "body (demo_query t cls fns) = Null"
  "rendererArg (demo_query t cls fns) = Json"
  "sqlFunctions (demo_query t cls fns) = fns"
  "chainedOperations (demo_query t cls fns) = cls"
  by (simp_all add: demo_query_def new_ChainedQuery_def)

theorem execute_url_nonempty_witness:
  "chainedOperations (demo_query GET [''a=1'', ''b=2''] []) = ''a=1'' # [''b=2'']
   \<and> http_client (client (demo_query GET [''a=1'', ''b=2''] [])) = Some ''k''
   \<and> chainedUrl (demo_query GET [''a=1'', ''b=2''] []) = ''http://h/public/t?a=1&b=2''
   \<and> map url (requests (snd (execute net_ok (demo_query GET [''a=1'', ''b=2''] []) world0))) =
       [''http://h/public/t?a=1&b=2'']"
  using execute_url_nonempty [where q = "demo_query GET [''a=1'', ''b=2''] []" and c = "''a=1''"
      and cs = "[''b=2'']" and auth = "''k''" and net = net_ok and w = world0]
  by (simp add: demo_query_simps demo_client_ready select_suffix_def world0_def)

section \<open>Builder calls\<close>

lemmas builder_defs =
  page_def pageSize_def select_def count_def countFirst_def renderer_def distinct_q_def
  order_def groupBy_def eq_def gt_def gte_def lt_def lte_def ne_def in_q_def notIn_def
  null_q_def notNull_def like_def ilike_def notLike_def sum_q_def avg_def max_q_def
  min_q_def stdDev_def variance_def having_def filterRange_def join_def jsonbFilter_def
  textSearch_def

lemma blank_simps: "chainedOperations blank = []" "sqlFunctions blank = []"
  by (simp_all add: blank_def new_ChainedQuery_def)

lemma invoke_clauses: "chainedOperations (invoke c q) = chainedOperations q @ fragments c"
  by (cases c) (simp_all add: fragments_def blank_simps builder_defs push_op_def push_fn_def Let_def)

lemma invoke_functions: "sqlFunctions (invoke c q) = sqlFunctions q @ tokens c"
  by (cases c) (simp_all add: tokens_def blank_simps builder_defs push_op_def push_fn_def Let_def)

lemma invoke_frame:
  "client (invoke c q) = client q" "baseUrl (invoke c q) = baseUrl q"
  "reqType (invoke c q) = reqType q" "body (invoke c q) = body q"
  by (cases c; simp add: builder_defs push_op_def push_fn_def Let_def)+

lemma chain_clauses:
  "chainedOperations (chain cs q) = chainedOperations q @ concat (map fragments cs)"
  by (induction cs arbitrary: q) (simp_all add: invoke_clauses)

lemma chain_functions: "sqlFunctions (chain cs q) = sqlFunctions q @ concat (map tokens cs)"
  by (induction cs arbitrary: q) (simp_all add: invoke_functions)

lemma chain_frame:
  "client (chain cs q) = client q" "baseUrl (chain cs q) = baseUrl q"
  "reqType (chain cs q) = reqType q" "body (chain cs q) = body q"
  by (induction cs arbitrary: q; simp add: invoke_frame)+

lemma new_ChainedQuery_simps:
  "client (new_ChainedQuery cl u t b) = cl" "baseUrl (new_ChainedQuery cl u t b) = u"
  "reqType (new_ChainedQuery cl u t b) = t" "body (new_ChainedQuery cl u t b) = b"
  "rendererArg (new_ChainedQuery cl u t b) = Json"
  "sqlFunctions (new_ChainedQuery cl u t b) = []"
  "chainedOperations (new_ChainedQuery cl u t b) = []"
  by (simp_all add: new_ChainedQuery_def)

lemma chain_url:
  "chainedUrl (chain cs (new_ChainedQuery cl u t b)) =
     u @ query_string (concat (map fragments cs)) @ select_suffix (concat (map tokens cs))"
  by (simp add: chainedUrl_eq chain_clauses chain_functions chain_frame new_ChainedQuery_simps)

lemma digits_0_9:
  "digits 0 = ''0''" "digits 1 = ''1''" "digits 2 = ''2''" "digits 3 = ''3''" "digits 4 = ''4''"
  "digits 5 = ''5''" "digits 6 = ''6''" "digits 7 = ''7''" "digits 8 = ''8''" "digits 9 = ''9''"
  by (simp_all add: digits_small)

lemmas encode_defs =
  stringify_def stringifyPrimitive_def Number_toString_def encodeURIComponent_def
  uriUnreserved_def percentEncode_def hexDigit_def join_values_def

lemma execute_chain_urls:
  assumes "http_client (client q) = Some auth"
  shows "map url (requests (snd (execute net (chain cs q) w))) =
         map url (requests w) @
         [baseUrl q @ query_string (chainedOperations q @ concat (map fragments cs)) @
          select_suffix (sqlFunctions q @ concat (map tokens cs))]"
proof -
  have "http_client (client (chain cs q)) = Some auth"
    by (simp add: chain_frame assms)
  from execute_urls [OF this] show ?thesis
    by (simp add: chainedUrl_eq chain_clauses chain_functions chain_frame)
qed

lemma execute_new_chain_urls:
  "map url (requests (snd (execute net
      (chain cs (new_ChainedQuery (new_PrestApiClient opts) u t b)) w))) =
   map url (requests w) @
   [u @ query_string (concat (map fragments cs)) @ select_suffix (concat (map tokens cs))]"
proof -
  have "http_client (client (new_ChainedQuery (new_PrestApiClient opts) u t b)) =
          Some (authHeader opts)"
    by (simp add: new_ChainedQuery_simps client_ready)
  from execute_chain_urls [OF this] show ?thesis
    by (simp add: new_ChainedQuery_simps)
qed

text \<open>
  C2. A chain of builder calls leaves the clauses already present in place and appends each
  call's own fragments, in the order of the calls. The URL that \<open>execute\<close> builds and
  requests after the chain lists the clauses that were present and then the fragments of
  the calls in invocation order.
\<close>

theorem clause_order_preserved:
  "chainedOperations (invoke c q) = chainedOperations q @ fragments c
   \<and> chainedOperations (chain cs q) = chainedOperations q @ concat (map fragments cs)
   \<and> chainedUrl (chain cs (new_ChainedQuery cl u t b)) =
       u @ query_string (concat (map fragments cs)) @ select_suffix (concat (map tokens cs))
   \<and> chainedUrl (chain [Call_eq ''a'' (Num (Fin 1)), Call_sum ''x'', Call_null ''b'',
         Call_filterRange ''p'' (Num (Fin 0)) (Num (Fin 9))] (new_ChainedQuery cl u t b)) =
       u @ ''?a=1&b=$null&p=$gte.0&p=$lte.9&_select=sum:x''
   \<and> (http_client (client q) = Some auth \<longrightarrow>
      map url (requests (snd (execute net (chain cs q) w))) =
        map url (requests w) @
        [baseUrl q @ query_string (chainedOperations q @ concat (map fragments cs)) @
         select_suffix (sqlFunctions q @ concat (map tokens cs))])
   \<and> map url (requests (snd (execute net
          (chain cs (new_ChainedQuery (new_PrestApiClient opts) u t b)) w))) =
       map url (requests w) @
       [u @ query_string (concat (map fragments cs)) @ select_suffix (concat (map tokens cs))]
   \<and> map url (requests (snd (execute net
          (chain [Call_eq ''a'' (Num (Fin 1)), Call_sum ''x'', Call_null ''b'',
                  Call_filterRange ''p'' (Num (Fin 0)) (Num (Fin 9))]
             (new_ChainedQuery (new_PrestApiClient opts) u t b)) w))) =
       map url (requests w) @ [u @ ''?a=1&b=$null&p=$gte.0&p=$lte.9&_select=sum:x'']"
proof -
  have f1: "fragments (Call_eq ''a'' (Num (Fin 1))) = [''a=1'']"
    and f2: "fragments (Call_sum ''x'') = []"
    and f3: "fragments (Call_null ''b'') = [''b=$null'']"
    and f4: "fragments (Call_filterRange ''p'' (Num (Fin 0)) (Num (Fin 9))) =
               [''p=$gte.0'', ''p=$lte.9'']"
    by code_simp+
  have t1: "tokens (Call_eq ''a'' (Num (Fin 1))) = []"
    and t2: "tokens (Call_sum ''x'') = [''sum:x'']"
    and t3: "tokens (Call_null ''b'') = []"
    and t4: "tokens (Call_filterRange ''p'' (Num (Fin 0)) (Num (Fin 9))) = []"
    by code_simp+
  have e1: "chainedUrl (chain [Call_eq ''a'' (Num (Fin 1)), Call_sum ''x'', Call_null ''b'',
         Call_filterRange ''p'' (Num (Fin 0)) (Num (Fin 9))] (new_ChainedQuery cl u t b)) =
       u @ ''?a=1&b=$null&p=$gte.0&p=$lte.9&_select=sum:x''"
    unfolding chain_url
    by (simp add: f1 f2 f3 f4 t1 t2 t3 t4 query_string_def select_suffix_def)
  have e2: "map url (requests (snd (execute net
          (chain [Call_eq ''a'' (Num (Fin 1)), Call_sum ''x'', Call_null ''b'',
                  Call_filterRange ''p'' (Num (Fin 0)) (Num (Fin 9))]
             (new_ChainedQuery (new_PrestApiClient opts) u t b)) w))) =
       map url (requests w) @ [u @ ''?a=1&b=$null&p=$gte.0&p=$lte.9&_select=sum:x'']"
    unfolding execute_new_chain_urls
    by (simp add: f1 f2 f3 f4 t1 t2 t3 t4 query_string_def select_suffix_def)
  have g: "http_client (client q) = Some auth \<longrightarrow>
      map url (requests (snd (execute net (chain cs q) w))) =
        map url (requests w) @
        [baseUrl q @ query_string (chainedOperations q @ concat (map fragments cs)) @
         select_suffix (sqlFunctions q @ concat (map tokens cs))]"
    by (rule impI) (rule execute_chain_urls)
  show ?thesis
    by (intro conjI)
       (rule invoke_clauses chain_clauses chain_url e1 g execute_new_chain_urls e2)+
qed

theorem clause_order_preserved_witness:
  "http_client (client (demo_query GET [''a=1''] [])) = Some ''k''
   \<and> map url (requests (snd (execute net_ok
          (chain [Call_null ''b'', Call_sum ''x'', Call_notNull ''c'']
             (demo_query GET [''a=1''] [])) world0))) =
       [''http://h/public/t?a=1&b=$null&c=$notnull&_select=sum:x'']"
proof -
  have f: "fragments (Call_null ''b'') = [''b=$null'']"
      "fragments (Call_sum ''x'') = []"
      "fragments (Call_notNull ''c'') = [''c=$notnull'']"
    and t: "tokens (Call_null ''b'') = []"
      "tokens (Call_sum ''x'') = [''sum:x'']"
      "tokens (Call_notNull ''c'') = []"
    by code_simp+
  show ?thesis
    using clause_order_preserved [where q = "demo_query GET [''a=1''] []" and auth = "''k''"
        and cs = "[Call_null ''b'', Call_sum ''x'', Call_notNull ''c'']" and net = net_ok
        and w = world0]
    by (simp add: demo_query_simps demo_client_ready f t query_string_def select_suffix_def
        world0_def)
qed

section \<open>Aggregates\<close>

lemma select_suffix_nonempty:
  "fns \<noteq> [] \<Longrightarrow> select_suffix fns = ''&_select='' @ Array_join fns '',''"
  by (simp add: select_suffix_def)

lemma aggregate_tokens:
  "tokens (Call_sum f) = [''sum:'' @ f]" "tokens (Call_avg f) = [''avg:'' @ f]"
  "tokens (Call_max f) = [''max:'' @ f]" "tokens (Call_min f) = [''min:'' @ f]"
  "tokens (Call_stdDev f) = [''stddev:'' @ f]" "tokens (Call_variance f) = [''variance:'' @ f]"
  by (simp_all add: tokens_def blank_simps builder_defs push_fn_def)

lemma aggregate_fragments:
  "fragments (Call_sum f) = []" "fragments (Call_avg f) = []" "fragments (Call_max f) = []"
  "fragments (Call_min f) = []" "fragments (Call_stdDev f) = []"
  "fragments (Call_variance f) = []"
  by (simp_all add: fragments_def blank_simps builder_defs push_fn_def)

text \<open>
  C4. When there are aggregate tokens, the URL that \<open>execute\<close> builds and requests ends
  in one directive \<open>&_select=\<close> followed by the tokens joined by commas, after all clause
  fragments; after a chain it depends only on the sequence of the clause fragments and the
  sequence of the tokens, so the place of the aggregate calls among the other calls does
  not matter. The six aggregate methods contribute the token \<open>func:field\<close> and no clause.
  \<open>groupBy("category_id")\<close> and \<open>sum("category_id")\<close>, in either order, make \<open>execute\<close>
  request a URL ending in \<open>&_select=sum:category_id\<close>.
\<close>

theorem aggregates_trailing_select:
  "(sqlFunctions q \<noteq> [] \<longrightarrow>
      chainedUrl q =
        baseUrl q @ query_string (chainedOperations q) @
        ''&_select='' @ Array_join (sqlFunctions q) '','')
   \<and> (concat (map tokens cs) \<noteq> [] \<longrightarrow>
      chainedUrl (chain cs (new_ChainedQuery cl u t b)) =
        u @ query_string (concat (map fragments cs)) @
        ''&_select='' @ Array_join (concat (map tokens cs)) '','')
   \<and> tokens (Call_sum f) = [''sum:'' @ f] \<and> fragments (Call_sum f) = []
   \<and> tokens (Call_avg f) = [''avg:'' @ f] \<and> fragments (Call_avg f) = []
   \<and> tokens (Call_max f) = [''max:'' @ f] \<and> fragments (Call_max f) = []
   \<and> tokens (Call_min f) = [''min:'' @ f] \<and> fragments (Call_min f) = []
   \<and> tokens (Call_stdDev f) = [''stddev:'' @ f] \<and> fragments (Call_stdDev f) = []
   \<and> tokens (Call_variance f) = [''variance:'' @ f] \<and> fragments (Call_variance f) = []
   \<and> chainedUrl (chain [Call_groupBy [''category_id''], Call_sum ''category_id'']
         (new_ChainedQuery cl u t b)) =
       u @ ''?_groupby=category_id&_select=sum:category_id''
   \<and> chainedUrl (chain [Call_sum ''category_id'', Call_groupBy [''category_id'']]
         (new_ChainedQuery cl u t b)) =
       u @ ''?_groupby=category_id&_select=sum:category_id''
   \<and> (sqlFunctions q \<noteq> [] \<and> http_client (client q) = Some auth \<longrightarrow>
      map url (requests (snd (execute net q w))) =
        map url (requests w) @
        [baseUrl q @ query_string (chainedOperations q) @
         ''&_select='' @ Array_join (sqlFunctions q) '',''])
   \<and> (concat (map tokens cs) \<noteq> [] \<longrightarrow>
      map url (requests (snd (execute net
         (chain cs (new_ChainedQuery (new_PrestApiClient opts) u t b)) w))) =
        map url (requests w) @
        [u @ query_string (concat (map fragments cs)) @
         ''&_select='' @ Array_join (concat (map tokens cs)) '',''])
   \<and> map url (requests (snd (execute net
          (chain [Call_groupBy [''category_id''], Call_sum ''category_id'']
             (new_ChainedQuery (new_PrestApiClient opts) u t b)) w))) =
       map url (requests w) @ [u @ ''?_groupby=category_id&_select=sum:category_id'']
   \<and> map url (requests (snd (execute net
          (chain [Call_sum ''category_id'', Call_groupBy [''category_id'']]
             (new_ChainedQuery (new_PrestApiClient opts) u t b)) w))) =
       map url (requests w) @ [u @ ''?_groupby=category_id&_select=sum:category_id'']"
proof -
  have g: "fragments (Call_groupBy [''category_id'']) = [''_groupby=category_id'']"
    and gt: "tokens (Call_groupBy [''category_id'']) = []"
    by code_simp+
  have a: "sqlFunctions q \<noteq> [] \<longrightarrow>
      chainedUrl q =
        baseUrl q @ query_string (chainedOperations q) @
        ''&_select='' @ Array_join (sqlFunctions q) '',''"
    by (simp add: chainedUrl_eq select_suffix_nonempty)
  have b: "concat (map tokens cs) \<noteq> [] \<longrightarrow>
      chainedUrl (chain cs (new_ChainedQuery cl u t b)) =
        u @ query_string (concat (map fragments cs)) @
        ''&_select='' @ Array_join (concat (map tokens cs)) '',''"
    using select_suffix_nonempty [of "concat (map tokens cs)"] by (simp add: chain_url)
  have c: "chainedUrl (chain [Call_groupBy [''category_id''], Call_sum ''category_id'']
         (new_ChainedQuery cl u t b)) =
       u @ ''?_groupby=category_id&_select=sum:category_id''"
    unfolding chain_url
    by (simp add: g gt aggregate_tokens aggregate_fragments query_string_def select_suffix_def)
  have d: "chainedUrl (chain [Call_sum ''category_id'', Call_groupBy [''category_id'']]
         (new_ChainedQuery cl u t b)) =
       u @ ''?_groupby=category_id&_select=sum:category_id''"
    unfolding chain_url
    by (simp add: g gt aggregate_tokens aggregate_fragments query_string_def select_suffix_def)
  have a': "sqlFunctions q \<noteq> [] \<and> http_client (client q) = Some auth \<longrightarrow>
      map url (requests (snd (execute net q w))) =
        map url (requests w) @
        [baseUrl q @ query_string (chainedOperations q) @
         ''&_select='' @ Array_join (sqlFunctions q) '','']"
  proof
    assume h: "sqlFunctions q \<noteq> [] \<and> http_client (client q) = Some auth"
    then have i: "http_client (client q) = Some auth"
      by simp
    from h a show "map url (requests (snd (execute net q w))) =
        map url (requests w) @
        [baseUrl q @ query_string (chainedOperations q) @
         ''&_select='' @ Array_join (sqlFunctions q) '','']"
      by (simp add: execute_urls [OF i])
  qed
  have b': "concat (map tokens cs) \<noteq> [] \<longrightarrow>
      map url (requests (snd (execute net
         (chain cs (new_ChainedQuery (new_PrestApiClient opts) u t b)) w))) =
        map url (requests w) @
        [u @ query_string (concat (map fragments cs)) @
         ''&_select='' @ Array_join (concat (map tokens cs)) '','']"
    using select_suffix_nonempty [of "concat (map tokens cs)"]
    by (simp add: execute_new_chain_urls)
  have c': "map url (requests (snd (execute net
          (chain [Call_groupBy [''category_id''], Call_sum ''category_id'']
             (new_ChainedQuery (new_PrestApiClient opts) u t b)) w))) =
       map url (requests w) @ [u @ ''?_groupby=category_id&_select=sum:category_id'']"
    unfolding execute_new_chain_urls
    by (simp add: g gt aggregate_tokens aggregate_fragments query_string_def select_suffix_def)
  have d': "map url (requests (snd (execute net
          (chain [Call_sum ''category_id'', Call_groupBy [''category_id'']]
             (new_ChainedQuery (new_PrestApiClient opts) u t b)) w))) =
       map url (requests w) @ [u @ ''?_groupby=category_id&_select=sum:category_id'']"
    unfolding execute_new_chain_urls
    by (simp add: g gt aggregate_tokens aggregate_fragments query_string_def select_suffix_def)
  show ?thesis
    by (intro conjI) (rule a b c d a' b' c' d' aggregate_tokens aggregate_fragments)+
qed

theorem aggregates_trailing_select_witness:
  "sqlFunctions (demo_query GET [''_groupby=g''] [''sum:x'', ''avg:y'']) \<noteq> []
   \<and> http_client (client (demo_query GET [''_groupby=g''] [''sum:x'', ''avg:y''])) = Some ''k''
   \<and> chainedUrl (demo_query GET [''_groupby=g''] [''sum:x'', ''avg:y'']) =
       ''http://h/public/t?_groupby=g&_select=sum:x,avg:y''
   \<and> map url (requests (snd (execute net_ok
          (demo_query GET [''_groupby=g''] [''sum:x'', ''avg:y'']) world0))) =
       [''http://h/public/t?_groupby=g&_select=sum:x,avg:y'']
   \<and> concat (map tokens [Call_sum ''x'', Call_groupBy [''g''], Call_avg ''y'']) \<noteq> []
   \<and> chainedUrl (chain [Call_sum ''x'', Call_groupBy [''g''], Call_avg ''y'']
         (new_ChainedQuery demo_client ''http://h/public/t'' GET Null)) =
       ''http://h/public/t?_groupby=g&_select=sum:x,avg:y''
   \<and> map url (requests (snd (execute net_ok
          (chain [Call_sum ''x'', Call_groupBy [''g''], Call_avg ''y'']
             (new_ChainedQuery (new_PrestApiClient \<lparr>base_url = ''http://h'', authHeader = ''k''\<rparr>)
                ''http://h/public/t'' GET Null)) world0))) =
       [''http://h/public/t?_groupby=g&_select=sum:x,avg:y'']"
proof -
  have g: "fragments (Call_groupBy [''g'']) = [''_groupby=g'']"
    and gt: "tokens (Call_groupBy [''g'']) = []"
    by code_simp+
  show ?thesis
    using aggregates_trailing_select [where q = "demo_query GET [''_groupby=g''] [''sum:x'', ''avg:y'']"
        and cs = "[Call_sum ''x'', Call_groupBy [''g''], Call_avg ''y'']"
        and cl = demo_client and u = "''http://h/public/t''" and t = GET and b = Null
        and auth = "''k''" and net = net_ok and w = world0
        and opts = "\<lparr>base_url = ''http://h'', authHeader = ''k''\<rparr>"]
    by (simp add: demo_query_simps demo_client_ready g gt aggregate_tokens aggregate_fragments
        query_string_def world0_def)
qed

lemma set_Array_join: "set (Array_join xs sep) \<subseteq> (\<Union>x \<in> set xs. set x) \<union> set sep"
  by (induction xs sep rule: Array_join.induct) auto

text \<open>
  C10. With no clause and at least one aggregate token, the URL that \<open>execute\<close> builds and
  requests is the base URL directly followed by \<open>&_select=\<close> and the tokens: \<open>execute\<close>
  puts no \<open>?\<close> into it, so a base URL and tokens without \<open>?\<close> give a URL without \<open>?\<close>.
  \<open>table("t").list().sum("x").execute()\<close> requests the client's base URL followed by
  \<open>/public/t&_select=sum:x\<close>.
\<close>

theorem aggregates_without_clauses:
  "(chainedOperations q = [] \<and> sqlFunctions q \<noteq> [] \<longrightarrow>
      chainedUrl q = baseUrl q @ ''&_select='' @ Array_join (sqlFunctions q) '','')
   \<and> (chainedOperations q = [] \<and> sqlFunctions q \<noteq> [] \<and> CHR ''?'' \<notin> set (baseUrl q)
        \<and> (\<forall>f \<in> set (sqlFunctions q). CHR ''?'' \<notin> set f) \<longrightarrow>
      CHR ''?'' \<notin> set (chainedUrl q))
   \<and> (chainedOperations q = [] \<and> sqlFunctions q \<noteq> []
        \<and> http_client (client q) = Some auth \<longrightarrow>
      map url (requests (snd (execute net q w))) =
        map url (requests w) @
        [baseUrl q @ ''&_select='' @ Array_join (sqlFunctions q) '',''])
   \<and> (case table (new_PrestApiClient opts) (Some ''t'') of
         Inl e \<Rightarrow> False
       | Inr r \<Rightarrow>
           chainedUrl (sum_q ''x'' (table_list (new_PrestApiClient opts) r)) =
             base_url opts @ ''/public/t&_select=sum:x''
           \<and> map url (requests (snd (execute net
                 (sum_q ''x'' (table_list (new_PrestApiClient opts) r)) w))) =
             map url (requests w) @ [base_url opts @ ''/public/t&_select=sum:x''])"
proof (intro conjI impI)
  assume "chainedOperations q = [] \<and> sqlFunctions q \<noteq> []"
  then show "chainedUrl q = baseUrl q @ ''&_select='' @ Array_join (sqlFunctions q) '',''"
    by (simp add: chainedUrl_eq query_string_def select_suffix_def)
next
  assume h: "chainedOperations q = [] \<and> sqlFunctions q \<noteq> [] \<and> CHR ''?'' \<notin> set (baseUrl q)
        \<and> (\<forall>f \<in> set (sqlFunctions q). CHR ''?'' \<notin> set f)"
  then have "CHR ''?'' \<notin> set (Array_join (sqlFunctions q) '','')"
    using set_Array_join [of "sqlFunctions q" "'',''"] by auto
  with h show "CHR ''?'' \<notin> set (chainedUrl q)"
    by (simp add: chainedUrl_eq query_string_def select_suffix_def)
next
  assume h: "chainedOperations q = [] \<and> sqlFunctions q \<noteq> []
        \<and> http_client (client q) = Some auth"
  then have i: "http_client (client q) = Some auth"
    by simp
  from h show "map url (requests (snd (execute net q w))) =
        map url (requests w) @
        [baseUrl q @ ''&_select='' @ Array_join (sqlFunctions q) '','']"
    by (simp add: execute_urls [OF i] chainedUrl_eq query_string_def select_suffix_def)
next
  let ?q = "sum_q ''x'' (table_list (new_PrestApiClient opts)
              \<lparr>schemaName = ''public'', tableName = ''t''\<rparr>)"
  have r: "table (new_PrestApiClient opts) (Some ''t'') =
          Inr \<lparr>schemaName = ''public'', tableName = ''t''\<rparr>"
    by (simp add: table_def client_ready)
  have u: "chainedUrl ?q = base_url opts @ ''/public/t&_select=sum:x''"
    by (simp add: chainedUrl_eq query_string_def select_suffix_def sum_q_def push_fn_def
        table_list_def table_path_def new_ChainedQuery_def client_options)
  have "client ?q = new_PrestApiClient opts"
    by (simp add: sum_q_def push_fn_def table_list_def new_ChainedQuery_def)
  then have "http_client (client ?q) = Some (authHeader opts)"
    by (simp add: client_ready)
  from execute_urls [OF this] u
  have "map url (requests (snd (execute net ?q w))) =
          map url (requests w) @ [base_url opts @ ''/public/t&_select=sum:x'']"
    by simp
  with r u show "case table (new_PrestApiClient opts) (Some ''t'') of
         Inl e \<Rightarrow> False
       | Inr r \<Rightarrow>
           chainedUrl (sum_q ''x'' (table_list (new_PrestApiClient opts) r)) =
             base_url opts @ ''/public/t&_select=sum:x''
           \<and> map url (requests (snd (execute net
                 (sum_q ''x'' (table_list (new_PrestApiClient opts) r)) w))) =
             map url (requests w) @ [base_url opts @ ''/public/t&_select=sum:x'']"
    by simp
qed

theorem aggregates_without_clauses_witness:
  "chainedOperations (demo_query GET [] [''sum:x'', ''max:y'']) = []
   \<and> sqlFunctions (demo_query GET [] [''sum:x'', ''max:y'']) \<noteq> []
   \<and> CHR ''?'' \<notin> set (baseUrl (demo_query GET [] [''sum:x'', ''max:y'']))
   \<and> http_client (client (demo_query GET [] [''sum:x'', ''max:y''])) = Some ''k''
   \<and> chainedUrl (demo_query GET [] [''sum:x'', ''max:y'']) =
       ''http://h/public/t&_select=sum:x,max:y''
   \<and> CHR ''?'' \<notin> set (chainedUrl (demo_query GET [] [''sum:x'', ''max:y'']))
   \<and> map url (requests (snd (execute net_ok (demo_query GET [] [''sum:x'', ''max:y'']) world0))) =
       [''http://h/public/t&_select=sum:x,max:y'']"
  using aggregates_without_clauses [where q = "demo_query GET [] [''sum:x'', ''max:y'']"
      and auth = "''k''" and net = net_ok and w = world0]
  by (simp add: demo_query_simps demo_client_ready world0_def)

section \<open>Filters\<close>

lemma join_values_Str: "join_values (map Str ss) sep = Array_join ss sep"
proof -
  have "map (\<lambda>v. if v = Undefined \<or> v = Null then [] else ToString v) (map Str ss) = ss"
    by (induction ss) simp_all
  then show ?thesis
    by (simp add: join_values_def)
qed

text \<open>
  C5. \<open>in(field, values)\<close> appends the single clause \<open>field=$in.\<close> followed by the values
  joined by commas, and \<open>notIn\<close> the same with \<open>$nin.\<close>. The join applies no
  percent-encoding: string values are joined as they are. \<open>in("x",[1,2,3])\<close> gives
  \<open>x=$in.1,2,3\<close>. The scalar comparisons encode their value: \<open>in("x",["a b"])\<close> gives
  \<open>x=$in.a b\<close> where \<open>eq("x","a b")\<close> gives \<open>x=a%20b\<close>.
\<close>

theorem in_notIn_unencoded:
  "chainedOperations (in_q f vs q) = chainedOperations q @ [f @ ''=$in.'' @ join_values vs '','']
   \<and> chainedOperations (notIn f vs q) =
       chainedOperations q @ [f @ ''=$nin.'' @ join_values vs '','']
   \<and> join_values (map Str ss) '','' = Array_join ss '',''
   \<and> chainedOperations (in_q ''x'' [Num (Fin 1), Num (Fin 2), Num (Fin 3)] q) =
       chainedOperations q @ [''x=$in.1,2,3'']
   \<and> chainedOperations (notIn ''x'' [Num (Fin 1), Num (Fin 2), Num (Fin 3)] q) =
       chainedOperations q @ [''x=$nin.1,2,3'']
   \<and> chainedOperations (eq f v q) =
       chainedOperations q @ [f @ ''='' @ encodeURIComponent (ToString v)]
   \<and> chainedOperations (gt f v q) =
       chainedOperations q @ [f @ ''=$gt.'' @ encodeURIComponent (ToString v)]
   \<and> chainedOperations (gte f v q) =
       chainedOperations q @ [f @ ''=$gte.'' @ encodeURIComponent (ToString v)]
   \<and> chainedOperations (lt f v q) =
       chainedOperations q @ [f @ ''=$lt.'' @ encodeURIComponent (ToString v)]
   \<and> chainedOperations (lte f v q) =
       chainedOperations q @ [f @ ''=$lte.'' @ encodeURIComponent (ToString v)]
   \<and> chainedOperations (ne f v q) =
       chainedOperations q @ [f @ ''=$ne.'' @ encodeURIComponent (ToString v)]
   \<and> chainedOperations (in_q ''x'' [Str ''a b''] q) = chainedOperations q @ [''x=$in.a b'']
   \<and> chainedOperations (eq ''x'' (Str ''a b'') q) = chainedOperations q @ [''x=a%20b'']"
proof -
  have j: "join_values [Num (Fin 1), Num (Fin 2), Num (Fin 3)] '','' = ''1,2,3''"
    by code_simp
  have s: "join_values [Str ''a b''] '','' = ''a b''"
    by code_simp
  have e: "encodeURIComponent (ToString (Str ''a b'')) = ''a%20b''"
    by code_simp
  show ?thesis
    by (simp add: in_q_def notIn_def eq_def gt_def gte_def lt_def lte_def ne_def push_op_def
        join_values_Str j s e del: ToString.simps)
qed

text \<open>
  C8. \<open>filterRange(field, start, end)\<close> appends the clause \<open>field=$gte.\<close> with the encoded
  start exactly when start is the number 0 or truthy, then the clause \<open>field=$lte.\<close> with
  the encoded end exactly when end is the number 0 or truthy, and nothing else. An absent
  bound gives no clause on its side; the bound 0 gives one.
\<close>

theorem filterRange_bounds:
  "chainedOperations (filterRange f s e q) =
     chainedOperations q
     @ (if s = Num (Fin 0) \<or> ToBoolean s
        then [f @ ''=$gte.'' @ encodeURIComponent (ToString s)] else [])
     @ (if e = Num (Fin 0) \<or> ToBoolean e
        then [f @ ''=$lte.'' @ encodeURIComponent (ToString e)] else [])
   \<and> sqlFunctions (filterRange f s e q) = sqlFunctions q
   \<and> chainedOperations (filterRange f Undefined Undefined q) = chainedOperations q
   \<and> chainedOperations (filterRange f (Num (Fin 0)) Undefined q) =
       chainedOperations q @ [f @ ''=$gte.0'']
   \<and> chainedOperations (filterRange f Undefined (Num (Fin 0)) q) =
       chainedOperations q @ [f @ ''=$lte.0'']
   \<and> chainedOperations (filterRange f (Num (Fin 0)) (Num (Fin 0)) q) =
       chainedOperations q @ [f @ ''=$gte.0'', f @ ''=$lte.0'']
   \<and> chainedOperations (filterRange f (Num (Fin 3)) (Str '''') q) =
       chainedOperations q @ [f @ ''=$gte.3'']"
proof -
  have z: "encodeURIComponent (ToString (Num (Fin 0))) = ''0''"
    and t: "encodeURIComponent (ToString (Num (Fin 3))) = ''3''"
    by code_simp+
  have g: "chainedOperations (filterRange f s e q) =
     chainedOperations q
     @ (if s = Num (Fin 0) \<or> ToBoolean s
        then [f @ ''=$gte.'' @ encodeURIComponent (ToString s)] else [])
     @ (if e = Num (Fin 0) \<or> ToBoolean e
        then [f @ ''=$lte.'' @ encodeURIComponent (ToString e)] else [])" for s e
    by (simp add: filterRange_def is_zero_def push_op_def Let_def)
  have "sqlFunctions (filterRange f s e q) = sqlFunctions q"
    by (simp add: filterRange_def push_op_def Let_def)
  then show ?thesis
    unfolding g by (simp add: z t del: ToString.simps)
qed

section \<open>Dispatch, decoding and errors\<close>

lemma transport_of_send:
  "transport_of auth m net u b w = send (failure_text m) (request_of auth m u b) net w"
  by (cases m)
     (simp_all add: transport_of_def request_of_def failure_text_def client_get_def
        client_post_def client_put_def client_delete_def client_export_def)

lemma execute_requests:
  assumes "http_client (client q) = Some auth"
  shows "requests (snd (execute net q w)) =
         requests w @ [request_of auth (reqType q) (chainedUrl q) (body q)]"
  by (simp add: execute_world [OF assms] transport_of_send send_requests)

lemma execute_console: "console (snd (execute net q w)) = console w @ [chainedUrl q]"
proof (cases "http_client (client q)")
  case None
  then show ?thesis
    by (simp add: execute_def getHttpClientMethod_def Let_def)
next
  case (Some auth)
  then show ?thesis
    by (simp add: execute_world transport_console)
qed

lemma execute_result:
  assumes "http_client (client q) = Some auth"
  shows "fst (execute net q w) =
     (case net (requests w) (request_of auth (reqType q) (chainedUrl q) (body q)) of
        Inl e \<Rightarrow> Inl (Error (''Failed to make API request: '' @ message e))
      | Inr response \<Rightarrow>
          (if \<not> ok response
           then Inl (Error (''Failed to make API request: '' @ failure_text (reqType q) @
                            statusText response))
           else if reqType q = EXPORT then Inr (Blob response)
           else if rendererArg q = Json then Inr (JsonData response)
           else Inr (Text response)))"
  using assms
  by (simp add: execute_def Let_def getHttpClientMethod_Some transport_of_send send_def
      fetch_def split: sum.splits)

lemma execute_last_request:
  assumes "http_client (client q) = Some auth"
  shows "last (requests (snd (execute net q w))) =
         request_of auth (reqType q) (chainedUrl q) (body q)"
  by (simp add: execute_requests [OF assms])

text \<open>
  C6. When the request \<open>execute\<close> issues is answered with a success, an export query
  resolves to the blob of the response whatever the renderer, and any other query to the
  JSON decoding when the renderer is \<open>json\<close> and to the text otherwise. Builder calls,
  \<open>renderer\<close> among them, never change the request type, and a new query renders \<open>json\<close>.
\<close>

theorem decode_by_reqType:
  "(http_client (client q) = Some auth
      \<and> net (requests w) (last (requests (snd (execute net q w)))) = Inr response
      \<and> ok response \<longrightarrow>
      fst (execute net q w) =
        Inr (if reqType q = EXPORT then Blob response
             else if rendererArg q = Json then JsonData response
             else Text response))
   \<and> (http_client (client q) = Some auth \<and> reqType q = EXPORT
      \<and> net (requests w) (last (requests (snd (execute net (renderer r q) w)))) = Inr response
      \<and> ok response \<longrightarrow>
      fst (execute net (renderer r q) w) = Inr (Blob response))
   \<and> reqType (renderer r q) = reqType q
   \<and> reqType (chain cs q) = reqType q
   \<and> rendererArg (renderer r q) = r
   \<and> rendererArg (new_ChainedQuery cl u t b) = Json"
proof (intro conjI impI)
  assume h: "http_client (client q) = Some auth
      \<and> net (requests w) (last (requests (snd (execute net q w)))) = Inr response
      \<and> ok response"
  then have a: "http_client (client q) = Some auth" and k: "ok response"
    by simp_all
  from h have "net (requests w) (request_of auth (reqType q) (chainedUrl q) (body q)) =
                 Inr response"
    by (simp add: execute_last_request [OF a])
  with k show "fst (execute net q w) =
        Inr (if reqType q = EXPORT then Blob response
             else if rendererArg q = Json then JsonData response
             else Text response)"
    by (simp add: execute_result [OF a])
next
  assume h: "http_client (client q) = Some auth \<and> reqType q = EXPORT
      \<and> net (requests w) (last (requests (snd (execute net (renderer r q) w)))) = Inr response
      \<and> ok response"
  have c: "client (renderer r q) = client q" and t: "reqType (renderer r q) = reqType q"
    by (simp_all add: renderer_def push_op_def)
  from h c have i: "http_client (client (renderer r q)) = Some auth"
    by simp
  from h have "net (requests w)
                 (request_of auth (reqType (renderer r q)) (chainedUrl (renderer r q))
                    (body (renderer r q))) = Inr response"
    by (simp add: execute_last_request [OF i])
  with h t show "fst (execute net (renderer r q) w) = Inr (Blob response)"
    by (simp add: execute_result [OF i])
qed (simp_all add: renderer_def push_op_def chain_frame new_ChainedQuery_def)

theorem decode_by_reqType_witness:
  "http_client (client (demo_query EXPORT [] [])) = Some ''k''
   \<and> net_ok (requests world0)
        (last (requests (snd (execute net_ok (demo_query EXPORT [] []) world0)))) =
       Inr \<lparr>ok = True, statusText = ''OK'', content = ''[]''\<rparr>
   \<and> fst (execute net_ok (demo_query EXPORT [] []) world0) =
       Inr (Blob \<lparr>ok = True, statusText = ''OK'', content = ''[]''\<rparr>)
   \<and> fst (execute net_ok (renderer Json (demo_query EXPORT [] [])) world0) =
       Inr (Blob \<lparr>ok = True, statusText = ''OK'', content = ''[]''\<rparr>)
   \<and> fst (execute net_ok (renderer Xml (demo_query EXPORT [] [])) world0) =
       Inr (Blob \<lparr>ok = True, statusText = ''OK'', content = ''[]''\<rparr>)"
  using
    decode_by_reqType [where q = "demo_query EXPORT [] []" and auth = "''k''" and net = net_ok
      and w = world0 and response = "\<lparr>ok = True, statusText = ''OK'', content = ''[]''\<rparr>"
      and r = Json]
    decode_by_reqType [where q = "demo_query EXPORT [] []" and auth = "''k''" and net = net_ok
      and w = world0 and response = "\<lparr>ok = True, statusText = ''OK'', content = ''[]''\<rparr>"
      and r = Xml]
  by (simp add: demo_query_simps demo_client_ready net_ok_def)

text \<open>
  C7 (as the code has it). On an initialised client \<open>execute\<close> issues exactly one request.
  When that request is rejected, \<open>execute\<close> fails with the message
  \<open>Failed to make API request: \<close> followed by the message of the rejection; when it is
  answered with a status that is not a success, the message is
  \<open>Failed to make API request: \<close>, the text of the verb's closure
  (\<open>Failed to fetch data: \<close> and its siblings) and the status text. \<open>execute\<close> adds no
  operation name and no table or script of its own: two queries of the same verb that meet
  the same failure fail with the same message, whatever their URLs.
\<close>

theorem transport_failure_wrapped:
  "(http_client (client q) = Some auth \<longrightarrow>
      requests (snd (execute net q w)) =
        requests w @ [request_of auth (reqType q) (chainedUrl q) (body q)])
   \<and> (http_client (client q) = Some auth
      \<and> net (requests w) (last (requests (snd (execute net q w)))) = Inl e \<longrightarrow>
      fst (execute net q w) = Inl (Error (''Failed to make API request: '' @ message e)))
   \<and> (http_client (client q) = Some auth
      \<and> net (requests w) (last (requests (snd (execute net q w)))) = Inr response
      \<and> \<not> ok response \<longrightarrow>
      fst (execute net q w) =
        Inl (Error (''Failed to make API request: '' @ failure_text (reqType q) @
                    statusText response)))
   \<and> (http_client (client q) = Some auth \<and> http_client (client q') = Some auth'
      \<and> net (requests w) (last (requests (snd (execute net q w)))) = Inl e
      \<and> net' (requests w') (last (requests (snd (execute net' q' w')))) = Inl e \<longrightarrow>
      fst (execute net' q' w') = fst (execute net q w))
   \<and> (http_client (client q) = Some auth \<and> http_client (client q') = Some auth'
      \<and> reqType q' = reqType q
      \<and> net (requests w) (last (requests (snd (execute net q w)))) = Inr response
      \<and> net' (requests w') (last (requests (snd (execute net' q' w')))) = Inr response
      \<and> \<not> ok response \<longrightarrow>
      fst (execute net' q' w') = fst (execute net q w))
   \<and> failure_text GET = ''Failed to fetch data: ''
   \<and> failure_text POST = ''Failed to insert data: ''
   \<and> failure_text PUT = ''Failed to update data: ''
   \<and> failure_text DELETE = ''Failed to delete data: ''
   \<and> failure_text EXPORT = ''Failed to export data: ''"
proof -
  have rejected: "fst (execute n x v) =
      Inl (Error (''Failed to make API request: '' @ message e))"
    if "http_client (client x) = Some a"
      and "n (requests v) (last (requests (snd (execute n x v)))) = Inl e"
    for n x v a
  proof -
    from that have "n (requests v) (request_of a (reqType x) (chainedUrl x) (body x)) = Inl e"
      by (simp add: execute_last_request)
    with that(1) show ?thesis
      by (simp add: execute_result)
  qed
  have refused: "fst (execute n x v) =
      Inl (Error (''Failed to make API request: '' @ failure_text (reqType x) @
                  statusText response))"
    if "http_client (client x) = Some a"
      and "n (requests v) (last (requests (snd (execute n x v)))) = Inr response"
      and "\<not> ok response"
    for n x v a
  proof -
    from that have "n (requests v) (request_of a (reqType x) (chainedUrl x) (body x)) =
                      Inr response"
      by (simp add: execute_last_request)
    with that(1,3) show ?thesis
      by (simp add: execute_result)
  qed
  show ?thesis
  proof (intro conjI impI)
    assume "http_client (client q) = Some auth"
    then show "requests (snd (execute net q w)) =
          requests w @ [request_of auth (reqType q) (chainedUrl q) (body q)]"
      by (rule execute_requests)
  next
    assume "http_client (client q) = Some auth
        \<and> net (requests w) (last (requests (snd (execute net q w)))) = Inl e"
    then show "fst (execute net q w) =
        Inl (Error (''Failed to make API request: '' @ message e))"
      by (simp add: rejected)
  next
    assume "http_client (client q) = Some auth
        \<and> net (requests w) (last (requests (snd (execute net q w)))) = Inr response
        \<and> \<not> ok response"
    then show "fst (execute net q w) =
          Inl (Error (''Failed to make API request: '' @ failure_text (reqType q) @
                      statusText response))"
      by (simp add: refused)
  next
    assume h: "http_client (client q) = Some auth \<and> http_client (client q') = Some auth'
        \<and> net (requests w) (last (requests (snd (execute net q w)))) = Inl e
        \<and> net' (requests w') (last (requests (snd (execute net' q' w')))) = Inl e"
    then have "fst (execute net q w) =
        Inl (Error (''Failed to make API request: '' @ message e))"
      by (simp add: rejected)
    moreover from h have "fst (execute net' q' w') =
        Inl (Error (''Failed to make API request: '' @ message e))"
      by (simp add: rejected)
    ultimately show "fst (execute net' q' w') = fst (execute net q w)"
      by simp
  next
    assume h: "http_client (client q) = Some auth \<and> http_client (client q') = Some auth'
        \<and> reqType q' = reqType q
        \<and> net (requests w) (last (requests (snd (execute net q w)))) = Inr response
        \<and> net' (requests w') (last (requests (snd (execute net' q' w')))) = Inr response
        \<and> \<not> ok response"
    then have "fst (execute net q w) =
          Inl (Error (''Failed to make API request: '' @ failure_text (reqType q) @
                      statusText response))"
      by (simp add: refused)
    moreover from h have "fst (execute net' q' w') =
          Inl (Error (''Failed to make API request: '' @ failure_text (reqType q') @
                      statusText response))"
      by (simp add: refused)
    ultimately show "fst (execute net' q' w') = fst (execute net q w)"
      using h by simp
  qed (simp_all add: failure_text_def)
qed

theorem transport_failure_wrapped_witness:
  "http_client (client (demo_query PUT [''id=7''] [])) = Some ''k''
   \<and> http_client (client (new_ChainedQuery demo_client ''http://h/public/products'' PUT Null)) =
       Some ''k''
   \<and> net_not_found (requests world0)
        (last (requests (snd (execute net_not_found (demo_query PUT [''id=7''] []) world0)))) =
       Inr \<lparr>ok = False, statusText = ''Not Found'', content = []\<rparr>
   \<and> fst (execute net_not_found (demo_query PUT [''id=7''] []) world0) =
       Inl (Error ''Failed to make API request: Failed to update data: Not Found'')
   \<and> fst (execute net_not_found
          (new_ChainedQuery demo_client ''http://h/public/products'' PUT Null) world0) =
       Inl (Error ''Failed to make API request: Failed to update data: Not Found'')
   \<and> net_down (requests world0)
        (last (requests (snd (execute net_down (demo_query PUT [''id=7''] []) world0)))) =
       Inl (Error ''fetch failed'')
   \<and> fst (execute net_down (demo_query PUT [''id=7''] []) world0) =
       Inl (Error ''Failed to make API request: fetch failed'')
   \<and> fst (execute net_down
          (new_ChainedQuery demo_client ''http://h/public/products'' PUT Null) world0) =
       Inl (Error ''Failed to make API request: fetch failed'')
   \<and> length (requests (snd (execute net_down (demo_query PUT [''id=7''] []) world0))) = 1"
  using
    transport_failure_wrapped [where q = "demo_query PUT [''id=7''] []" and auth = "''k''"
      and net = net_not_found and w = world0
      and response = "\<lparr>ok = False, statusText = ''Not Found'', content = []\<rparr>"
      and q' = "new_ChainedQuery demo_client ''http://h/public/products'' PUT Null"
      and auth' = "''k''" and net' = net_not_found and w' = world0]
    transport_failure_wrapped [where q = "demo_query PUT [''id=7''] []" and auth = "''k''"
      and net = net_down and w = world0 and e = "Error ''fetch failed''"
      and q' = "new_ChainedQuery demo_client ''http://h/public/products'' PUT Null"
      and auth' = "''k''" and net' = net_down and w' = world0]
  by (simp add: demo_query_simps new_ChainedQuery_simps demo_client_ready net_not_found_def
      net_down_def world0_def)

text \<open>
  The claim as worded fails: listing the table \<open>products\<close> against a server that answers
  \<open>Not Found\<close> fails with a message in which \<open>products\<close> does not occur, and against a
  network that is down with a message naming neither the operation nor the table.
\<close>

theorem error_message_lacks_target:
  "fst (execute net_not_found
          (table_list demo_client \<lparr>schemaName = ''public'', tableName = ''products''\<rparr>) world0) =
     Inl (Error ''Failed to make API request: Failed to fetch data: Not Found'')
   \<and> \<not> sublist ''products'' ''Failed to make API request: Failed to fetch data: Not Found''
   \<and> fst (execute net_down
          (table_list demo_client \<lparr>schemaName = ''public'', tableName = ''products''\<rparr>) world0) =
     Inl (Error ''Failed to make API request: fetch failed'')
   \<and> \<not> sublist ''products'' ''Failed to make API request: fetch failed''"
proof -
  let ?q = "table_list demo_client \<lparr>schemaName = ''public'', tableName = ''products''\<rparr>"
  have a: "http_client (client ?q) = Some ''k''"
    by (simp add: table_list_def new_ChainedQuery_def demo_client_ready)
  have t: "reqType ?q = GET"
    by (simp add: table_list_def new_ChainedQuery_def)
  have "fst (execute net_not_found ?q world0) =
          Inl (Error ''Failed to make API request: Failed to fetch data: Not Found'')"
    by (simp add: execute_result [OF a] net_not_found_def t failure_text_def)
  moreover have "fst (execute net_down ?q world0) =
          Inl (Error ''Failed to make API request: fetch failed'')"
    by (simp add: execute_result [OF a] net_down_def)
  moreover have
    "\<not> sublist ''products'' ''Failed to make API request: Failed to fetch data: Not Found''"
    by code_simp
  moreover have "\<not> sublist ''products'' ''Failed to make API request: fetch failed''"
    by code_simp
  ultimately show ?thesis
    by simp
qed

section \<open>Frame of the builder methods\<close>

lemma invoke_renderer:
  "rendererArg (invoke c q) = (case c of Call_renderer r \<Rightarrow> r | _ \<Rightarrow> rendererArg q)"
  by (cases c) (simp_all add: builder_defs push_op_def push_fn_def Let_def)

lemma invoke_shape:
  "invoke c q =
     q\<lparr>rendererArg := rendererArg (invoke c q),
       sqlFunctions := sqlFunctions q @ tokens c,
       chainedOperations := chainedOperations q @ fragments c\<rparr>"
proof -
  have "invoke c q =
     q\<lparr>rendererArg := rendererArg (invoke c q),
       sqlFunctions := sqlFunctions (invoke c q),
       chainedOperations := chainedOperations (invoke c q)\<rparr>"
    by (cases c) (simp_all add: builder_defs push_op_def push_fn_def Let_def)
  then show ?thesis
    by (simp add: invoke_clauses invoke_functions)
qed

text \<open>
  C9 (as the code has it). A builder call returns the query it was called on, with
  \<open>chainedOperations\<close> and \<open>sqlFunctions\<close> extended by the call's fragments and tokens and,
  for \<open>renderer\<close> alone, \<open>rendererArg\<close> set to its argument; \<open>client\<close>, \<open>baseUrl\<close>, \<open>reqType\<close>
  and \<open>body\<close> are never changed, by one call or by a chain. Builder calls take and return
  the query only; \<open>execute\<close> is what prints the URL on the console.
\<close>

theorem builder_frame:
  "invoke c q =
     q\<lparr>rendererArg := (case c of Call_renderer r \<Rightarrow> r | _ \<Rightarrow> rendererArg q),
       sqlFunctions := sqlFunctions q @ tokens c,
       chainedOperations := chainedOperations q @ fragments c\<rparr>
   \<and> client (invoke c q) = client q \<and> baseUrl (invoke c q) = baseUrl q
   \<and> reqType (invoke c q) = reqType q \<and> body (invoke c q) = body q
   \<and> client (chain cs q) = client q \<and> baseUrl (chain cs q) = baseUrl q
   \<and> reqType (chain cs q) = reqType q \<and> body (chain cs q) = body q
   \<and> console (snd (execute net q w)) = console w @ [chainedUrl q]"
proof -
  have s: "invoke c q =
     q\<lparr>rendererArg := (case c of Call_renderer r \<Rightarrow> r | _ \<Rightarrow> rendererArg q),
       sqlFunctions := sqlFunctions q @ tokens c,
       chainedOperations := chainedOperations q @ fragments c\<rparr>"
    using invoke_shape [of c q] by (simp only: invoke_renderer)
  show ?thesis
    by (intro conjI) (rule s invoke_frame chain_frame execute_console)+
qed

text \<open>
  The claim as worded fails: \<open>renderer("xml")\<close> changes \<open>rendererArg\<close>, which is neither the
  clause list nor the aggregate list.
\<close>

theorem renderer_sets_rendererArg:
  "rendererArg (demo_query GET [] []) = Json
   \<and> rendererArg (renderer Xml (demo_query GET [] [])) = Xml
   \<and> renderer Xml (demo_query GET [] []) \<noteq>
       (demo_query GET [] [])
         \<lparr>sqlFunctions := sqlFunctions (renderer Xml (demo_query GET [] [])),
          chainedOperations := chainedOperations (renderer Xml (demo_query GET [] []))\<rparr>"
proof -
  let ?q = "demo_query GET [] []"
  let ?q' = "?q\<lparr>sqlFunctions := sqlFunctions (renderer Xml ?q),
                chainedOperations := chainedOperations (renderer Xml ?q)\<rparr>"
  have x: "rendererArg (renderer Xml ?q) = Xml"
    by (simp add: renderer_def)
  have j: "rendererArg ?q' = Json"
    by (simp add: demo_query_simps)
  have "renderer Xml ?q \<noteq> ?q'"
  proof
    assume "renderer Xml ?q = ?q'"
    then have "rendererArg (renderer Xml ?q) = rendererArg ?q'"
      by (rule arg_cong)
    with x j show False
      by simp
  qed
  with x show ?thesis
    by (simp add: demo_query_simps)
qed

section \<open>Table identifiers\<close>

lemma split_no_sep: "sep \<notin> set s \<Longrightarrow> split s sep = [s]"
  by (induction s) auto

lemma split_first: "sep \<notin> set l \<Longrightarrow> split (l @ sep # r) sep = l # split r sep"
  by (induction l) auto

lemma table_plain:
  assumes "t \<noteq> []" and "CHR ''.'' \<notin> set t"
  shows "table (new_PrestApiClient opts) (Some t) = Inr \<lparr>schemaName = ''public'', tableName = t\<rparr>"
  using assms by (simp add: table_def client_ready)

lemma table_dotted_schema:
  assumes "CHR ''.'' \<notin> set l"
  shows "\<exists>n. table (new_PrestApiClient opts) (Some (l @ ''.'' @ rest)) =
           Inr \<lparr>schemaName = (if l = [] then ''public'' else l), tableName = n\<rparr>"
proof (cases "split rest (CHR ''.'')")
  case Nil
  with assms show ?thesis
    by (simp add: table_def client_ready split_first)
next
  case (Cons p ps)
  with assms show ?thesis
    by (simp add: table_def client_ready split_first)
qed

lemma table_one_dot:
  assumes "CHR ''.'' \<notin> set l" and "CHR ''.'' \<notin> set r"
  shows "table (new_PrestApiClient opts) (Some (l @ ''.'' @ r)) =
           Inr \<lparr>schemaName = (if l = [] then ''public'' else l), tableName = r\<rparr>"
  using assms by (simp add: table_def client_ready split_first split_no_sep)

text \<open>
  C3 (as the code has it). An identifier without \<open>.\<close> that is not empty resolves to the
  schema \<open>public\<close> and the whole string as table. For an identifier with a \<open>.\<close>, the schema
  is the part before the first \<open>.\<close>, or \<open>public\<close> when that part is empty; when there is
  exactly one \<open>.\<close>, the table is the whole part after it, possibly empty. The empty
  identifier and the absent one are refused. \<open>categories\<close> and \<open>public.categories\<close> resolve
  to \<open>public\<close> and \<open>categories\<close>, and \<open>public.\<close> to \<open>public\<close> and the empty table.
\<close>

theorem table_identifier_resolution:
  "(t \<noteq> [] \<and> CHR ''.'' \<notin> set t \<longrightarrow>
      table (new_PrestApiClient opts) (Some t) =
        Inr \<lparr>schemaName = ''public'', tableName = t\<rparr>)
   \<and> (CHR ''.'' \<notin> set l \<and> CHR ''.'' \<notin> set r \<longrightarrow>
      table (new_PrestApiClient opts) (Some (l @ ''.'' @ r)) =
        Inr \<lparr>schemaName = (if l = [] then ''public'' else l), tableName = r\<rparr>)
   \<and> (CHR ''.'' \<notin> set l \<longrightarrow>
      (case table (new_PrestApiClient opts) (Some (l @ ''.'' @ rest)) of
         Inl e \<Rightarrow> False
       | Inr ref \<Rightarrow> schemaName ref = (if l = [] then ''public'' else l)))
   \<and> table (new_PrestApiClient opts) (Some []) = Inl (Error ''table name is required'')
   \<and> table (new_PrestApiClient opts) None = Inl (Error ''table name is required'')
   \<and> table (new_PrestApiClient opts) (Some ''categories'') =
       Inr \<lparr>schemaName = ''public'', tableName = ''categories''\<rparr>
   \<and> table (new_PrestApiClient opts) (Some ''public.categories'') =
       Inr \<lparr>schemaName = ''public'', tableName = ''categories''\<rparr>
   \<and> table (new_PrestApiClient opts) (Some ''public.'') =
       Inr \<lparr>schemaName = ''public'', tableName = []\<rparr>"
proof (intro conjI impI)
  assume "t \<noteq> [] \<and> CHR ''.'' \<notin> set t"
  then show "table (new_PrestApiClient opts) (Some t) =
        Inr \<lparr>schemaName = ''public'', tableName = t\<rparr>"
    by (simp add: table_plain)
next
  assume "CHR ''.'' \<notin> set l \<and> CHR ''.'' \<notin> set r"
  then have a: "CHR ''.'' \<notin> set l" and b: "CHR ''.'' \<notin> set r"
    by simp_all
  show "table (new_PrestApiClient opts) (Some (l @ ''.'' @ r)) =
        Inr \<lparr>schemaName = (if l = [] then ''public'' else l), tableName = r\<rparr>"
    by (rule table_one_dot [OF a b])
next
  assume "CHR ''.'' \<notin> set l"
  from table_dotted_schema [OF this, of opts rest]
  show "case table (new_PrestApiClient opts) (Some (l @ ''.'' @ rest)) of
         Inl e \<Rightarrow> False
       | Inr ref \<Rightarrow> schemaName ref = (if l = [] then ''public'' else l)"
    by auto
next
  show "table (new_PrestApiClient opts) (Some ''public.categories'') =
       Inr \<lparr>schemaName = ''public'', tableName = ''categories''\<rparr>"
    using table_one_dot [of "''public''" "''categories''" opts] by simp
next
  show "table (new_PrestApiClient opts) (Some ''public.'') =
       Inr \<lparr>schemaName = ''public'', tableName = []\<rparr>"
    using table_one_dot [of "''public''" "[]" opts] by simp
qed (simp_all add: table_def client_ready)

theorem table_identifier_resolution_witness:
  "''users'' \<noteq> [] \<and> CHR ''.'' \<notin> set ''users''
   \<and> table (new_PrestApiClient \<lparr>base_url = ''http://h'', authHeader = ''k''\<rparr>) (Some ''users'') =
       Inr \<lparr>schemaName = ''public'', tableName = ''users''\<rparr>
   \<and> CHR ''.'' \<notin> set ''private''
   \<and> table (new_PrestApiClient \<lparr>base_url = ''http://h'', authHeader = ''k''\<rparr>)
        (Some (''private'' @ ''.'' @ ''users'')) =
       Inr \<lparr>schemaName = ''private'', tableName = ''users''\<rparr>"
  using
    table_identifier_resolution [where t = "''users''" and l = "''private''" and r = "''users''"
      and opts = "\<lparr>base_url = ''http://h'', authHeader = ''k''\<rparr>"]
  by simp

text \<open>
  The claim as worded fails in three places: an empty part before the \<open>.\<close> gives the
  schema \<open>public\<close>, not the empty schema; of \<open>a.b.c\<close> the table is \<open>b\<close>, not \<open>b.c\<close>; and the
  empty identifier is refused rather than resolved.
\<close>

theorem table_split_differs:
  "table demo_client (Some ''.users'') = Inr \<lparr>schemaName = ''public'', tableName = ''users''\<rparr>
   \<and> table demo_client (Some ''.users'') \<noteq> Inr \<lparr>schemaName = [], tableName = ''users''\<rparr>
   \<and> table demo_client (Some ''a.b.c'') = Inr \<lparr>schemaName = ''a'', tableName = ''b''\<rparr>
   \<and> table demo_client (Some ''a.b.c'') \<noteq> Inr \<lparr>schemaName = ''a'', tableName = ''b.c''\<rparr>
   \<and> table demo_client (Some []) = Inl (Error ''table name is required'')
   \<and> table demo_client (Some []) \<noteq> Inr \<lparr>schemaName = ''public'', tableName = []\<rparr>"
  by (simp add: table_def demo_client_ready)

end
